theory Spec2Isabelle
  imports Complex_Main "HOL-Library.Word"
begin

section \<open>Chatmate: the chat route handler\<close>

text \<open>
  The route handler (the TypeScript module that exports \<open>POST\<close>) classifies the latest user
  message with an ordered chain of regular expressions and answers with a templated reply and
  a list of suggestions. The development below embeds the handler function by function:
  JavaScript strings, the regular expressions the handler uses, the values that
  \<open>request.json()\<close> can produce, and then \<open>sanitize\<close>, \<open>buildIdeasResponse\<close>,
  \<open>buildPlanResponse\<close>, \<open>summarizeConversation\<close>, \<open>buildResponse\<close> and \<open>POST\<close>.
\<close>

subsection \<open>Strings\<close>

text \<open>
  A JavaScript string is a sequence of UTF-16 code units. \<open>str\<close> reads an ASCII literal;
  the typographic characters of the reply templates are written as code units.
\<close>

type_synonym cu = "16 word"
type_synonym jstring = "cu list"

definition str :: "string \<Rightarrow> jstring" where
  "str s = map of_char s"

text \<open>
  The class \<open>\s\<close> of a regular expression and the characters removed by \<open>trim\<close> are the
  same set: WhiteSpace and LineTerminator of the language specification.
\<close>

definition isSpace :: "cu \<Rightarrow> bool" where
  "isSpace c \<longleftrightarrow>
     c = 0x09 \<or> c = 0x0A \<or> c = 0x0B \<or> c = 0x0C \<or> c = 0x0D \<or> c = 0x20 \<or> c = 0xA0 \<or>
     c = 0x1680 \<or> (0x2000 \<le> c \<and> c \<le> 0x200A) \<or> c = 0x2028 \<or> c = 0x2029 \<or>
     c = 0x202F \<or> c = 0x205F \<or> c = 0x3000 \<or> c = 0xFEFF"

text \<open>The class \<open>\w\<close>, which decides where \<open>\b\<close> holds: \<open>[A-Za-z0-9_]\<close>.\<close>

definition isWordChar :: "cu \<Rightarrow> bool" where
  "isWordChar c \<longleftrightarrow>
     (0x61 \<le> c \<and> c \<le> 0x7A) \<or> (0x41 \<le> c \<and> c \<le> 0x5A) \<or>
     (0x30 \<le> c \<and> c \<le> 0x39) \<or> c = 0x5F"

text \<open>
  Case folding under the \<open>i\<close> flag (without the \<open>u\<close> flag). Two code units match when
  their upper-case forms agree, and a code unit outside ASCII is never folded onto an ASCII
  one. The patterns of the handler are ASCII text: against them, a letter matches itself and
  its other case and nothing else, which is what folding \<open>a-z\<close> onto \<open>A-Z\<close> and leaving
  every other code unit as it is decides.
\<close>

definition canonicalize :: "bool \<Rightarrow> cu \<Rightarrow> cu" where
  "canonicalize ignoreCase c =
     (if ignoreCase \<and> 0x61 \<le> c \<and> c \<le> 0x7A then c - 0x20 else c)"

definition asciiLower :: "cu \<Rightarrow> cu" where
  "asciiLower c = (if 0x41 \<le> c \<and> c \<le> 0x5A then c + 0x20 else c)"

text \<open>
  What the handler takes from its JavaScript engine and from the clock: the Unicode
  lower-casing of text that is not plain ASCII (the engine's character tables), and the
  wall-clock time as \<open>toLocaleTimeString\<close> prints it.
\<close>

record runtime =
  unicodeLowerCase :: "jstring \<Rightarrow> jstring"
  localeTimeString :: jstring

definition toLowerCase :: "runtime \<Rightarrow> jstring \<Rightarrow> jstring" where
  "toLowerCase rt s =
     (if list_all (\<lambda>c. c < 0x80) s then map asciiLower s else unicodeLowerCase rt s)"

definition trimStart :: "jstring \<Rightarrow> jstring" where
  "trimStart s = dropWhile isSpace s"

definition trimEnd :: "jstring \<Rightarrow> jstring" where
  "trimEnd s = rev (dropWhile isSpace (rev s))"

definition trim :: "jstring \<Rightarrow> jstring" where
  "trim s = trimEnd (trimStart s)"

definition startsWith :: "jstring \<Rightarrow> jstring \<Rightarrow> bool" where
  "startsWith s w \<longleftrightarrow> take (length w) s = w"

fun stringIncludes :: "jstring \<Rightarrow> jstring \<Rightarrow> bool" where
  "stringIncludes [] w = (w = [])"
| "stringIncludes (c # cs) w = (startsWith (c # cs) w \<or> stringIncludes cs w)"

fun join :: "jstring \<Rightarrow> jstring list \<Rightarrow> jstring" where
  "join sep [] = []"
| "join sep [x] = x"
| "join sep (x # y # ys) = x @ sep @ join sep (y # ys)"

definition digit :: "nat \<Rightarrow> cu" where
  "digit d = 0x30 + of_nat d"

function toStringNat :: "nat \<Rightarrow> jstring" where
  "toStringNat n = (if n < 10 then [digit n] else toStringNat (n div 10) @ [digit (n mod 10)])"
  by pat_completeness auto
termination
  by (relation "measure id") auto

text \<open>\<open>Array.prototype.slice(start)\<close>: a negative start counts from the end.\<close>

definition sliceFrom :: "int \<Rightarrow> 'a list \<Rightarrow> 'a list" where
  "sliceFrom start xs =
     (let len = int (length xs);
          k = (if start < 0 then max (len + start) 0 else min start len)
      in drop (nat k) xs)"

subsection \<open>Regular expressions\<close>

text \<open>
  The constructs the handler's patterns use: literal text, \<open>\s\<close>, \<open>\b\<close>, concatenation,
  alternation, \<open>?\<close> and \<open>+\<close>. A match state is the code unit before the current position
  (none at the start of the text) and the text that remains.
\<close>

datatype regex =
    Chars jstring
  | WhiteSpace
  | WordBoundary
  | Cat regex regex
  | Or regex regex
  | Optional regex
  | OneOrMore regex

type_synonym mstate = "cu option \<times> jstring"

fun matchChars :: "bool \<Rightarrow> jstring \<Rightarrow> mstate \<Rightarrow> mstate list" where
  "matchChars ic [] st = [st]"
| "matchChars ic (p # ps) (prev, []) = []"
| "matchChars ic (p # ps) (prev, c # cs) =
     (if canonicalize ic c = canonicalize ic p then matchChars ic ps (Some c, cs) else [])"

definition isWordBoundary :: "mstate \<Rightarrow> bool" where
  "isWordBoundary st =
     (let a = (case fst st of None \<Rightarrow> False | Some c \<Rightarrow> isWordChar c);
          b = (case snd st of [] \<Rightarrow> False | c # _ \<Rightarrow> isWordChar c)
      in a \<noteq> b)"

text \<open>
  The backtracking matcher: all the states in which a match of the pattern that starts in the
  given state can end, in the order in which the engine tries them (the left alternative
  first, the greedy choice first). The engine takes the first. An iteration of \<open>+\<close> after the
  first is entered only when the one before it consumed text.
\<close>

function matchRe :: "bool \<Rightarrow> regex \<Rightarrow> mstate \<Rightarrow> mstate list" where
  "matchRe ic (Chars w) st = matchChars ic w st"
| "matchRe ic WhiteSpace st =
     (case snd st of [] \<Rightarrow> [] | c # cs \<Rightarrow> if isSpace c then [(Some c, cs)] else [])"
| "matchRe ic WordBoundary st = (if isWordBoundary st then [st] else [])"
| "matchRe ic (Cat a b) st = concat (map (matchRe ic b) (matchRe ic a st))"
| "matchRe ic (Or a b) st = matchRe ic a st @ matchRe ic b st"
| "matchRe ic (Optional a) st = matchRe ic a st @ [st]"
| "matchRe ic (OneOrMore a) st =
     concat (map (\<lambda>st'. (if length (snd st') < length (snd st)
                          then matchRe ic (OneOrMore a) st' else []) @ [st'])
                 (matchRe ic a st))"
  by pat_completeness auto
termination
  by (relation "measures [\<lambda>(ic, r, st). size r, \<lambda>(ic, r, st). length (snd st)]") auto

text \<open>
  \<open>exec\<close> without the sticky flag tries every start position from the left; \<open>test\<close> asks
  whether one of them matches. None of the handler's tested patterns has a flag.
\<close>

fun matchesFrom :: "bool \<Rightarrow> regex \<Rightarrow> cu option \<Rightarrow> jstring \<Rightarrow> bool" where
  "matchesFrom ic r prev [] = (matchRe ic r (prev, []) \<noteq> [])"
| "matchesFrom ic r prev (c # cs) =
     (matchRe ic r (prev, c # cs) \<noteq> [] \<or> matchesFrom ic r (Some c) cs)"

definition test :: "regex \<Rightarrow> jstring \<Rightarrow> bool" where
  "test r s = matchesFrom False r None s"

text \<open>
  \<open>String.prototype.replace\<close> with a pattern that has the \<open>g\<close> flag and a replacement
  without \<open>$\<close>: from the left, the first match at the leftmost position is replaced and the
  search goes on behind it; after an empty match it goes on one code unit further.
\<close>

function replaceFrom :: "bool \<Rightarrow> regex \<Rightarrow> jstring \<Rightarrow> cu option \<Rightarrow> jstring \<Rightarrow> jstring" where
  "replaceFrom ic r rep prev rest =
     (case matchRe ic r (prev, rest) of
        [] \<Rightarrow> (case rest of [] \<Rightarrow> [] | c # cs \<Rightarrow> c # replaceFrom ic r rep (Some c) cs)
      | st' # _ \<Rightarrow>
          if length (snd st') < length rest
          then rep @ replaceFrom ic r rep (fst st') (snd st')
          else rep @ (case rest of [] \<Rightarrow> [] | c # cs \<Rightarrow> c # replaceFrom ic r rep (Some c) cs))"
  by pat_completeness auto
termination
  by (relation "measure (\<lambda>(ic, r, rep, prev, rest). length rest)") auto

definition replaceAll :: "bool \<Rightarrow> regex \<Rightarrow> jstring \<Rightarrow> jstring \<Rightarrow> jstring" where
  "replaceAll ic r rep s = replaceFrom ic r rep None s"

fun alts :: "regex \<Rightarrow> regex list \<Rightarrow> regex" where
  "alts r [] = r"
| "alts r (x # xs) = Or r (alts x xs)"

definition lit :: "string \<Rightarrow> regex" where
  "lit s = Chars (str s)"

text \<open>The patterns of the dispatch chain, in the order of the source.\<close>

definition greetingRe :: regex where
  \<comment> \<open>\<open>/\b(hello|hey|hi|good\s?(morning|afternoon|evening))\b/\<close>\<close>
  "greetingRe =
     Cat WordBoundary
       (Cat (alts (lit ''hello'') [lit ''hey'', lit ''hi'',
               Cat (lit ''good'') (Cat (Optional WhiteSpace)
                 (alts (lit ''morning'') [lit ''afternoon'', lit ''evening'']))])
            WordBoundary)"

definition thanksRe :: regex where
  \<comment> \<open>\<open>/\b(thank(s| you)|appreciate|great job|awesome)\b/\<close>\<close>
  "thanksRe =
     Cat WordBoundary
       (Cat (alts (Cat (lit ''thank'') (Or (lit ''s'') (lit '' you'')))
               [lit ''appreciate'', lit ''great job'', lit ''awesome''])
            WordBoundary)"

definition thanksShortRe :: regex where
  \<comment> \<open>\<open>/\bthanks?\b/\<close>\<close>
  "thanksShortRe = Cat WordBoundary (Cat (lit ''thank'') (Cat (Optional (lit ''s'')) WordBoundary))"

definition farewellRe :: regex where
  \<comment> \<open>\<open>/\b(bye|goodbye|see you|later)\b/\<close>\<close>
  "farewellRe =
     Cat WordBoundary
       (Cat (alts (lit ''bye'') [lit ''goodbye'', lit ''see you'', lit ''later'']) WordBoundary)"

definition identityRe :: regex where
  \<comment> \<open>\<open>/\b(who are you|what are you|introduce yourself)\b/\<close>\<close>
  "identityRe =
     Cat WordBoundary
       (Cat (alts (lit ''who are you'') [lit ''what are you'', lit ''introduce yourself''])
            WordBoundary)"

definition planRe :: regex where
  \<comment> \<open>\<open>/\b(plan|schedule|timeline|roadmap)\b/\<close>\<close>
  "planRe =
     Cat WordBoundary
       (Cat (alts (lit ''plan'') [lit ''schedule'', lit ''timeline'', lit ''roadmap''])
            WordBoundary)"

definition ideaRe :: regex where
  \<comment> \<open>\<open>/\bidea|ideas|brainstorm|concept\b/\<close>: the alternation is at the top level\<close>
  "ideaRe =
     alts (Cat WordBoundary (lit ''idea''))
       [lit ''ideas'', lit ''brainstorm'', Cat (lit ''concept'') WordBoundary]"

definition jokeRe :: regex where
  \<comment> \<open>\<open>/\b(joke|funny|laugh)\b/\<close>\<close>
  "jokeRe = Cat WordBoundary (Cat (alts (lit ''joke'') [lit ''funny'', lit ''laugh'']) WordBoundary)"

definition weatherRe :: regex where
  \<comment> \<open>\<open>/\b(weather|temperature|outside)\b/\<close>\<close>
  "weatherRe =
     Cat WordBoundary
       (Cat (alts (lit ''weather'') [lit ''temperature'', lit ''outside'']) WordBoundary)"

definition timeRe :: regex where
  \<comment> \<open>\<open>/\btime\b/\<close>\<close>
  "timeRe = Cat WordBoundary (Cat (lit ''time'') WordBoundary)"

definition explainRe :: regex where
  \<comment> \<open>\<open>/\b(explain|teach|learn|understand)\b/\<close>\<close>
  "explainRe =
     Cat WordBoundary
       (Cat (alts (lit ''explain'') [lit ''teach'', lit ''learn'', lit ''understand''])
            WordBoundary)"

definition summaryRe :: regex where
  \<comment> \<open>\<open>/\bsummary|summarize|recap\b/\<close>: the alternation is at the top level\<close>
  "summaryRe =
     alts (Cat WordBoundary (lit ''summary'')) [lit ''summarize'', Cat (lit ''recap'') WordBoundary]"

text \<open>The patterns of the two \<open>replace\<close> calls (flags \<open>gi\<close>) and of \<open>sanitize\<close> (flag \<open>g\<close>).\<close>

definition ideasKeywordRe :: regex where
  \<comment> \<open>\<open>/plan|idea|ideas?|brainstorm|help/gi\<close>\<close>
  "ideasKeywordRe =
     alts (lit ''plan'')
       [lit ''idea'', Cat (lit ''idea'') (Optional (lit ''s'')), lit ''brainstorm'', lit ''help'']"

definition planKeywordRe :: regex where
  \<comment> \<open>\<open>/plan|schedule|timeline|roadmap/gi\<close>\<close>
  "planKeywordRe = alts (lit ''plan'') [lit ''schedule'', lit ''timeline'', lit ''roadmap'']"

definition whitespaceRunRe :: regex where
  \<comment> \<open>\<open>/\s+/g\<close>\<close>
  "whitespaceRunRe = OneOrMore WhiteSpace"

subsection \<open>Values and messages\<close>

text \<open>
  The type annotations of the source (\<open>ChatMessage\<close>, \<open>ChatRequest\<close>) are erased when the
  handler runs: \<open>request.json()\<close> yields whatever value the request body denotes. \<open>jsval\<close>
  is such a value (an object by its properties, each name once), together with
  \<open>undefined\<close>, which reading an absent property yields. Of a number, only whether it is
  zero is ever observed.
\<close>

datatype jsval =
    JUndefined
  | JNull
  | JBool bool
  | JNum rat
  | JStr jstring
  | JArr "jsval list"
  | JObj "(jstring \<times> jsval) list"

datatype error = TypeError | SyntaxError

datatype Role = User | Assistant

record ChatMessage =
  role :: Role
  content :: jstring

record ResponsePayload =
  reply :: jstring
  suggestions :: "jstring list"

text \<open>What \<open>NextResponse.json(payload, { status })\<close> sends.\<close>

record Response =
  status :: nat
  payload :: ResponsePayload

definition roleName :: "Role \<Rightarrow> jstring" where
  "roleName r = (case r of User \<Rightarrow> str ''user'' | Assistant \<Rightarrow> str ''assistant'')"

text \<open>A message of the declared type, as a value.\<close>

definition ofMessage :: "ChatMessage \<Rightarrow> jsval" where
  "ofMessage m = JObj [(str ''role'', JStr (roleName (role m))), (str ''content'', JStr (content m))]"

definition truthy :: "jsval \<Rightarrow> bool" where
  "truthy v =
     (case v of
        JUndefined \<Rightarrow> False
      | JNull \<Rightarrow> False
      | JBool b \<Rightarrow> b
      | JNum n \<Rightarrow> n \<noteq> 0
      | JStr s \<Rightarrow> s \<noteq> []
      | JArr xs \<Rightarrow> True
      | JObj kvs \<Rightarrow> True)"

definition isArray :: "jsval \<Rightarrow> bool" where
  "isArray v = (case v of JArr xs \<Rightarrow> True | _ \<Rightarrow> False)"

text \<open>
  Reading one of the properties \<open>messages\<close>, \<open>role\<close>, \<open>content\<close>: of \<open>null\<close> and
  \<open>undefined\<close> it throws, of an object it yields the property or \<open>undefined\<close>, of any other
  value \<open>undefined\<close> (no prototype has a property of these names).
\<close>

definition getProp :: "jsval \<Rightarrow> jstring \<Rightarrow> error + jsval" where
  "getProp v k =
     (case v of
        JUndefined \<Rightarrow> Inl TypeError
      | JNull \<Rightarrow> Inl TypeError
      | JObj kvs \<Rightarrow> Inr (case map_of kvs k of None \<Rightarrow> JUndefined | Some x \<Rightarrow> x)
      | _ \<Rightarrow> Inr JUndefined)"

text \<open>
  \<open>[...xs].reverse().find((entry) => entry.role === r)\<close> is \<open>findRole r (rev xs)\<close>, and
  \<open>xs.filter((entry) => entry.role === r)\<close> is \<open>filterRole r xs\<close>: the callback reads
  \<open>entry.role\<close> of each element it visits, and throws where that throws.
\<close>

fun findRole :: "jstring \<Rightarrow> jsval list \<Rightarrow> error + jsval" where
  "findRole r [] = Inr JUndefined"
| "findRole r (entry # es) =
     (case getProp entry (str ''role'') of
        Inl e \<Rightarrow> Inl e
      | Inr v \<Rightarrow> if v = JStr r then Inr entry else findRole r es)"

fun filterRole :: "jstring \<Rightarrow> jsval list \<Rightarrow> error + jsval list" where
  "filterRole r [] = Inr []"
| "filterRole r (entry # es) =
     (case getProp entry (str ''role'') of
        Inl e \<Rightarrow> Inl e
      | Inr v \<Rightarrow>
          (case filterRole r es of
             Inl e \<Rightarrow> Inl e
           | Inr ys \<Rightarrow> Inr (if v = JStr r then entry # ys else ys)))"

subsection \<open>The reply templates\<close>

definition fallbackSuggestions :: "jstring list" where
  "fallbackSuggestions =
     [str ''What else can you help me with?'',
     str ''Summarize our conversation so far.'',
     str ''Give me a fresh idea to explore.'',
     str ''Help me plan the next steps.'']"

definition ideasTailoredPre :: "jstring" where
  "ideasTailoredPre =
     str ''Here are a few directions tailored to '' @ [0x22]"

definition ideasTailoredPost :: "jstring" where
  "ideasTailoredPost =
     [0x22] @ str '':''"

definition ideasExplore :: "jstring" where
  "ideasExplore =
     str ''Here are a few directions to explore:''"

definition ideasBody :: "jstring" where
  "ideasBody =
     [0x0A, 0x0A] @ str ''1. **Quick Win** '' @ [0x2013] @
     str '' Start with a small experiment you can finish in under an hour to '' @
     str ''validate the concept without a big investment.'' @ [0x0A] @
     str ''2. **Deep Dive** '' @ [0x2013] @
     str '' Outline the larger objective, then break it into three milestones '' @
     str ''with owners, timelines, and success criteria.'' @ [0x0A] @
     str ''3. **Community Pulse** '' @ [0x2013] @
     str '' Ask three people from your audience what they would expect. Their '' @
     str ''language will sharpen your copy and positioning.'' @ [0x0A, 0x0A] @
     str ''Want to unpack one of these further?''"

definition planSubjectPre :: "jstring" where
  "planSubjectPre =
     str '' to shape ''"

definition planPre :: "jstring" where
  "planPre =
     str ''Here'' @ [0x2019] @ str ''s a simple structure''"

definition planPost :: "jstring" where
  "planPost =
     str '' you can follow:'' @ [0x0A, 0x0A] @ str ''- **Clarify the outcome** '' @ [0x2013] @
     str '' write one sentence about what '' @ [0x201C] @ str ''done'' @ [0x201D] @
     str '' looks like.'' @ [0x0A] @ str ''- **Identify constraints** '' @ [0x2013] @
     str '' note time, budget, and any tools you already have.'' @ [0x0A] @
     str ''- **Draft the timeline** '' @ [0x2013] @
     str '' split the work into morning/afternoon or weekly checkpoints.'' @ [0x0A] @
     str ''- **Add accountability** '' @ [0x2013] @
     str '' schedule quick check-ins or reminders so momentum doesn'' @ [0x2019] @
     str ''t fade.'' @ [0x0A, 0x0A] @ str ''If you'' @ [0x2019] @
     str ''d like, I can turn this into a calendar-style checklist for you.''"

definition exploringReply :: "jstring" where
  "exploringReply =
     str ''You'' @ [0x2019] @ str ''ve mostly been exploring the assistant'' @ [0x2019] @
     str ''s features so far.''"

definition trackingPre :: "jstring" where
  "trackingPre =
     str ''Here'' @ [0x2019] @ str ''s what I'' @ [0x2019] @ str ''m tracking:'' @ [0x0A]"

definition trackingPost :: "jstring" where
  "trackingPost =
     [0x0A, 0x0A] @ str ''Ready whenever you are for a deeper dive.''"

definition greetingReply :: "jstring" where
  "greetingReply =
     str ''Hey! '' @ [0xD83D, 0xDC4B] @ str '' I'' @ [0x2019] @
     str ''m right here. Let me know what you'' @ [0x2019] @
     str ''re working on or curious about and we'' @ [0x2019] @ str ''ll dive in together.''"

definition greetingSuggestions :: "jstring list" where
  "greetingSuggestions =
     [str ''Help me map out my next project.'',
     str ''Teach me something new in five minutes.'',
     str ''Turn this idea into action steps.'']"

definition thanksReply :: "jstring" where
  "thanksReply =
     str ''So glad that helped! Do you want to keep going, try a different '' @
     str ''angle, or wrap up with next steps?''"

definition thanksSuggestions :: "jstring list" where
  "thanksSuggestions =
     [str ''Let'' @ [0x2019] @ str ''s build on that idea.'',
     str ''What should I tackle next?'',
     str ''Summarize what we achieved.'']"

definition farewellReply :: "jstring" where
  "farewellReply =
     str ''Catch you later! I'' @ [0x2019] @ str ''ll be ready the moment you'' @ [0x2019] @
     str ''re back and want to resume.''"

definition farewellSuggestions :: "jstring list" where
  "farewellSuggestions =
     [str ''Draft a recap email for me.'',
     str ''Share a quick productivity tip.'',
     str ''Set up a follow-up checklist.'']"

definition identityReply :: "jstring" where
  "identityReply =
     str ''I'' @ [0x2019] @ str ''m Chatmate'' @ [0x2014] @
     str ''your on-demand collaborator for brainstorming, planning, and '' @
     str ''explaining ideas clearly. I combine structured thinking with a '' @
     str ''friendly tone so you can move faster.''"

definition identitySuggestions :: "jstring list" where
  "identitySuggestions =
     [str ''Show me how you brainstorm.'',
     str ''Help me plan something step-by-step.'',
     str ''Summarize an article for me.'']"

definition planSuggestions :: "jstring list" where
  "planSuggestions =
     [str ''Convert that into a 7-day plan.'',
     str ''List potential blockers I should watch out for.'',
     str ''Suggest tools to stay on schedule.'']"

definition ideasSuggestions :: "jstring list" where
  "ideasSuggestions =
     [str ''Expand on idea number two.'',
     str ''Find an inspiring quote I can use.'',
     str ''Outline the risks and mitigations.'']"

definition jokeReply :: "jstring" where
  "jokeReply =
     str ''Sure! Why did the developer bring a ladder to work? Because they '' @
     str ''heard the project was in the cloud. '' @ [0xD83D, 0xDE04] @
     str '' Want another one or should we get back to business?''"

definition jokeSuggestions :: "jstring list" where
  "jokeSuggestions =
     [str ''Give me a motivational quote.'',
     str ''Let'' @ [0x2019] @ str ''s get serious again.'',
     str ''Share a brainstorming icebreaker.'']"

definition weatherReply :: "jstring" where
  "weatherReply =
     str ''I can'' @ [0x2019] @
     str ''t check the live weather, but I can help you pack smarter: grab '' @
     str ''layers, keep an eye on the hourly forecast, and schedule a backup '' @
     str ''indoor activity just in case.''"

definition weatherSuggestions :: "jstring list" where
  "weatherSuggestions =
     [str ''Plan a day trip itinerary.'',
     str ''Help me pack efficiently.'',
     str ''Create a rainy-day backup plan.'']"

definition timePre :: "jstring" where
  "timePre =
     str ''It'' @ [0x2019] @ str ''s currently ''"

definition timePost :: "jstring" where
  "timePost =
     str ''. Want to carve out a plan for the next hour or set some checkpoints?''"

definition timeSuggestions :: "jstring list" where
  "timeSuggestions =
     [str ''Help me focus for the next 25 minutes.'',
     str ''Break the next task into checkpoints.'',
     str ''Plan my evening wind-down routine.'']"

definition explainReply :: "jstring" where
  "explainReply =
     str ''Let'' @ [0x2019] @ str ''s unpack that the simple way:'' @ [0x0A, 0x0A] @
     str ''1. Start with the big picture'' @ [0x2014] @ str ''what problem does it solve?'' @
     [0x0A] @ str ''2. Identify the core pieces involved.'' @ [0x0A] @
     str ''3. Walk through a real-world example.'' @ [0x0A] @
     str ''4. Finish with an action you can try on your own.'' @ [0x0A, 0x0A] @
     str ''Tell me what you'' @ [0x2019] @ str ''re learning and I'' @ [0x2019] @
     str ''ll tailor each step.''"

definition explainSuggestions :: "jstring list" where
  "explainSuggestions =
     [str ''Give me an analogy to understand it.'',
     str ''Quiz me with a quick check.'',
     str ''Show me the pros and cons.'']"

definition summarySuggestions :: "jstring list" where
  "summarySuggestions =
     [str ''Highlight key decisions.'',
     str ''Outline next actions.'',
     str ''Draft a message I can send to my team.'']"

definition expandReply :: "jstring" where
  "expandReply =
     str ''Let'' @ [0x2019] @ str ''s zoom in: what part would you like to develop'' @
     [0x2014] @ str ''resources, timeline, or potential challenges? Give me a clue and I'' @
     [0x2019] @ str ''ll sketch it out.''"

definition expandSuggestions :: "jstring list" where
  "expandSuggestions =
     [str ''List potential challenges we might hit.'',
     str ''Suggest resources that could help.'',
     str ''Turn this into a longer-form outline.'']"

definition echoPre :: "jstring" where
  "echoPre =
     str ''Here'' @ [0x2019] @ str ''s what I'' @ [0x2019] @ str ''m picking up: ''"

definition echoPost :: "jstring" where
  "echoPost =
     str ''. I can help you clarify the goal, outline the steps, or find '' @
     str ''inspiration.'' @ [0x0A, 0x0A] @
     str ''Let me know which direction sounds best and we'' @ [0x2019] @
     str ''ll move forward.''"

definition malformedReply :: "jstring" where
  "malformedReply =
     str ''I didn'' @ [0x2019] @
     str ''t catch that request. Can you share it again in plain text?''"

definition readyReply :: "jstring" where
  "readyReply =
     str ''I'' @ [0x2019] @ str ''m ready when you are'' @ [0x2014] @
     str ''drop a message and we'' @ [0x2019] @ str ''ll get rolling.''"

definition sidewaysReply :: "jstring" where
  "sidewaysReply =
     str ''Something went sideways on my end. Give me a second and feel free to '' @
     str ''try again.''"

subsection \<open>The responder\<close>

definition sanitize :: "jstring \<Rightarrow> jstring" where
  "sanitize v = replaceAll False whitespaceRunRe (str '' '') (trim v)"

text \<open>
  \<open>sanitize\<close> applied to a value that need not be a string: \<open>value.trim()\<close> throws unless
  the value is one.
\<close>

definition sanitizeValue :: "jsval \<Rightarrow> error + jstring" where
  "sanitizeValue v = (case v of JStr s \<Rightarrow> Inr (sanitize s) | _ \<Rightarrow> Inl TypeError)"

text \<open>The constant \<open>focus\<close> of \<open>buildIdeasResponse\<close>.\<close>

definition ideasFocus :: "jstring \<Rightarrow> jstring" where
  "ideasFocus prompt = trim (replaceAll True ideasKeywordRe [] prompt)"

definition buildIdeasResponse :: "jstring \<Rightarrow> jstring" where
  "buildIdeasResponse prompt =
     (let focus = ideasFocus prompt;
          focusLine = (if focus \<noteq> [] then ideasTailoredPre @ focus @ ideasTailoredPost
                       else ideasExplore)
      in focusLine @ ideasBody)"

text \<open>The constant \<open>focus\<close> of \<open>buildPlanResponse\<close>.\<close>

definition planFocus :: "jstring \<Rightarrow> jstring" where
  "planFocus prompt = sanitize (replaceAll True planKeywordRe [] prompt)"

definition buildPlanResponse :: "jstring \<Rightarrow> jstring" where
  "buildPlanResponse prompt =
     (let focus = planFocus prompt;
          subject = (if focus \<noteq> [] then planSubjectPre @ focus else [])
      in planPre @ subject @ planPost)"

text \<open>
  The callback of \<open>map\<close> in \<open>summarizeConversation\<close>, over the entries from \<open>index\<close> on:
  \<open>`${index + 1}. ${sanitize(entry.content)}`\<close>.
\<close>

fun numberEntries :: "nat \<Rightarrow> jsval list \<Rightarrow> error + jstring list" where
  "numberEntries index [] = Inr []"
| "numberEntries index (entry # es) =
     (case getProp entry (str ''content'') of
        Inl e \<Rightarrow> Inl e
      | Inr c \<Rightarrow>
          (case sanitizeValue c of
             Inl e \<Rightarrow> Inl e
           | Inr s \<Rightarrow>
               (case numberEntries (index + 1) es of
                  Inl e \<Rightarrow> Inl e
                | Inr rest \<Rightarrow> Inr ((toStringNat (index + 1) @ str ''. '' @ s) # rest))))"

definition summarizeConversation :: "jsval list \<Rightarrow> error + jstring" where
  "summarizeConversation history =
     (case filterRole (str ''user'') history of
        Inl e \<Rightarrow> Inl e
      | Inr users \<Rightarrow>
          (case numberEntries 0 (sliceFrom (- 3) users) of
             Inl e \<Rightarrow> Inl e
           | Inr important \<Rightarrow>
               if length important = 0 then Inr exploringReply
               else Inr (trackingPre @ join [0x0A] important @ trackingPost)))"

text \<open>
  \<open>buildResponse\<close>: \<open>prompt.toLowerCase()\<close> throws unless the prompt is a string; the
  branches are tried in the order of the source, and the search for the last assistant entry
  runs before the test for \<open>expand\<close>.
\<close>

definition buildResponse :: "runtime \<Rightarrow> jsval \<Rightarrow> jsval list \<Rightarrow> error + ResponsePayload" where
  "buildResponse rt promptValue history =
     (case promptValue of
        JStr prompt \<Rightarrow>
          (let normalized = toLowerCase rt prompt in
           if test greetingRe normalized then
             Inr \<lparr>reply = greetingReply, suggestions = greetingSuggestions\<rparr>
           else if test thanksRe normalized \<or> test thanksShortRe normalized then
             Inr \<lparr>reply = thanksReply, suggestions = thanksSuggestions\<rparr>
           else if test farewellRe normalized then
             Inr \<lparr>reply = farewellReply, suggestions = farewellSuggestions\<rparr>
           else if test identityRe normalized then
             Inr \<lparr>reply = identityReply, suggestions = identitySuggestions\<rparr>
           else if test planRe normalized then
             Inr \<lparr>reply = buildPlanResponse prompt, suggestions = planSuggestions\<rparr>
           else if test ideaRe normalized then
             Inr \<lparr>reply = buildIdeasResponse prompt, suggestions = ideasSuggestions\<rparr>
           else if test jokeRe normalized then
             Inr \<lparr>reply = jokeReply, suggestions = jokeSuggestions\<rparr>
           else if test weatherRe normalized then
             Inr \<lparr>reply = weatherReply, suggestions = weatherSuggestions\<rparr>
           else if test timeRe normalized then
             Inr \<lparr>reply = timePre @ localeTimeString rt @ timePost, suggestions = timeSuggestions\<rparr>
           else if test explainRe normalized then
             Inr \<lparr>reply = explainReply, suggestions = explainSuggestions\<rparr>
           else if test summaryRe normalized then
             (case summarizeConversation history of
                Inl e \<Rightarrow> Inl e
              | Inr summary \<Rightarrow> Inr \<lparr>reply = summary, suggestions = summarySuggestions\<rparr>)
           else
             (case findRole (str ''assistant'') (rev history) of
                Inl e \<Rightarrow> Inl e
              | Inr lastAssistantResponse \<Rightarrow>
                  if truthy lastAssistantResponse \<and> stringIncludes normalized (str ''expand'') then
                    Inr \<lparr>reply = expandReply, suggestions = expandSuggestions\<rparr>
                  else
                    Inr \<lparr>reply = echoPre @ sanitize prompt @ echoPost,
                         suggestions = fallbackSuggestions\<rparr>))
      | _ \<Rightarrow> Inl TypeError)"

subsection \<open>The endpoint\<close>

text \<open>
  The body of the \<open>try\<close> block of \<open>POST\<close>, from the outcome of \<open>request.json()\<close>: a
  thrown exception is \<open>Inl\<close>.
\<close>

definition handleRequest :: "runtime \<Rightarrow> error + jsval \<Rightarrow> error + Response" where
  "handleRequest rt parsed =
     (case parsed of
        Inl e \<Rightarrow> Inl e
      | Inr body \<Rightarrow>
          if \<not> truthy body then
            Inr \<lparr>status = 400,
                 payload = \<lparr>reply = malformedReply, suggestions = fallbackSuggestions\<rparr>\<rparr>
          else
            (case getProp body (str ''messages'') of
               Inl e \<Rightarrow> Inl e
             | Inr m \<Rightarrow>
                 (case m of
                    JArr messages \<Rightarrow>
                      (case findRole (str ''user'') (rev messages) of
                         Inl e \<Rightarrow> Inl e
                       | Inr lastUserMessage \<Rightarrow>
                           if \<not> truthy lastUserMessage then
                             Inr \<lparr>status = 200,
                                  payload = \<lparr>reply = readyReply,
                                             suggestions = fallbackSuggestions\<rparr>\<rparr>
                           else
                             (case getProp lastUserMessage (str ''content'') of
                                Inl e \<Rightarrow> Inl e
                              | Inr text \<Rightarrow>
                                  (case buildResponse rt text messages of
                                     Inl e \<Rightarrow> Inl e
                                   | Inr r \<Rightarrow> Inr \<lparr>status = 200, payload = r\<rparr>)))
                  | _ \<Rightarrow>
                      Inr \<lparr>status = 400,
                           payload = \<lparr>reply = malformedReply,
                                      suggestions = fallbackSuggestions\<rparr>\<rparr>)))"

text \<open>\<open>POST\<close>: the \<open>catch\<close> clause answers every exception with status 500.\<close>

definition POST :: "runtime \<Rightarrow> error + jsval \<Rightarrow> Response" where
  "POST rt parsed =
     (case handleRequest rt parsed of
        Inr response \<Rightarrow> response
      | Inl e \<Rightarrow>
          \<lparr>status = 500,
           payload = \<lparr>reply = sidewaysReply, suggestions = fallbackSuggestions\<rparr>\<rparr>)"

subsection \<open>Notions used in the statements and proofs\<close>

text \<open>
  Collapsing the runs of white space of a text to one space each, written as a recursion over
  the text; \<open>inRun\<close> says that the code unit before was white space. It is what
  \<open>replace(/\s+/g, " ")\<close> is shown to compute.
\<close>

fun collapseRuns :: "bool \<Rightarrow> jstring \<Rightarrow> jstring" where
  "collapseRuns inRun [] = []"
| "collapseRuns inRun (c # cs) =
     (if isSpace c then (if inRun then collapseRuns True cs else 0x20 # collapseRuns True cs)
      else c # collapseRuns False cs)"

text \<open>
  Deleting keywords from a text, written as a recursion over the text: from the left, where
  a keyword of the list stands (in either case of its letters), the first such keyword of
  the list is dropped and the scan goes on behind it; elsewhere the code unit is kept.
\<close>

fun startsWithFolded :: "jstring \<Rightarrow> jstring \<Rightarrow> bool" where
  "startsWithFolded s [] = True"
| "startsWithFolded [] (p # ps) = False"
| "startsWithFolded (c # cs) (p # ps) =
     (canonicalize True c = canonicalize True p \<and> startsWithFolded cs ps)"

function deleteKeywords :: "jstring list \<Rightarrow> jstring \<Rightarrow> jstring" where
  "deleteKeywords ks [] = []"
| "deleteKeywords ks (c # cs) =
     (case find (\<lambda>k. k \<noteq> [] \<and> startsWithFolded (c # cs) k) ks of
        Some k \<Rightarrow> deleteKeywords ks (drop (length k) (c # cs))
      | None \<Rightarrow> c # deleteKeywords ks cs)"
  by pat_completeness auto
termination
  by (relation "measure (\<lambda>(ks, s). length s)") (auto simp: find_Some_iff)

text \<open>One of the eleven patterns of the dispatch chain matches the lower-cased prompt.\<close>

definition matchesDispatch :: "runtime \<Rightarrow> jstring \<Rightarrow> bool" where
  "matchesDispatch rt prompt =
     (let normalized = toLowerCase rt prompt in
      test greetingRe normalized \<or> test thanksRe normalized \<or> test thanksShortRe normalized \<or>
      test farewellRe normalized \<or> test identityRe normalized \<or> test planRe normalized \<or>
      test ideaRe normalized \<or> test jokeRe normalized \<or> test weatherRe normalized \<or>
      test timeRe normalized \<or> test explainRe normalized \<or> test summaryRe normalized)"

text \<open>The entries of a typed history whose role is \<open>user\<close>, oldest first.\<close>

definition userEntries :: "ChatMessage list \<Rightarrow> ChatMessage list" where
  "userEntries h = filter (\<lambda>m. role m = User) h"

text \<open>The three fixed responses of the endpoint.\<close>

definition malformedResponse :: Response where
  "malformedResponse =
     \<lparr>status = 400, payload = \<lparr>reply = malformedReply, suggestions = fallbackSuggestions\<rparr>\<rparr>"

definition readyResponse :: Response where
  "readyResponse =
     \<lparr>status = 200, payload = \<lparr>reply = readyReply, suggestions = fallbackSuggestions\<rparr>\<rparr>"



text \<open>
  A match state in a text of white space: the code unit before the position, if any, and
  all that remain are white space.
\<close>

definition blankState :: "mstate \<Rightarrow> bool" where
  "blankState st \<longleftrightarrow>
     (case fst st of None \<Rightarrow> True | Some c \<Rightarrow> isSpace c) \<and> list_all isSpace (snd st)"

text \<open>
  A runtime for the concrete examples: its clock reads 9:41 AM, and its lower-casing leaves
  text that is not plain ASCII as it is.
\<close>

definition sampleRuntime :: runtime where
  "sampleRuntime = \<lparr>unicodeLowerCase = id, localeTimeString = str ''9:41 AM''\<rparr>"

declare toStringNat.simps [simp del]

declare replaceFrom.simps [simp del]

declare deleteKeywords.simps [simp del]

section \<open>Properties\<close>

subsection \<open>Trimming and sanitizing\<close>

lemma dropWhile_fix: "xs = [] \<or> \<not> P (hd xs) \<Longrightarrow> dropWhile P xs = xs"
  by (cases xs) auto

lemma trimEnd_prefix: "\<exists>ys. s = trimEnd s @ ys"
proof -
  have "rev (takeWhile isSpace (rev s) @ dropWhile isSpace (rev s)) = s"
    by (simp only: takeWhile_dropWhile_id rev_rev_ident)
  then have "s = trimEnd s @ rev (takeWhile isSpace (rev s))"
    by (simp only: rev_append trimEnd_def)
  then show ?thesis ..
qed

lemma trimEnd_last: "trimEnd s \<noteq> [] \<Longrightarrow> \<not> isSpace (last (trimEnd s))"
  unfolding trimEnd_def by (simp add: last_rev hd_dropWhile)

lemma trimStart_hd: "trimStart s \<noteq> [] \<Longrightarrow> \<not> isSpace (hd (trimStart s))"
  unfolding trimStart_def by (simp add: hd_dropWhile)

lemma trim_ends: "trim s \<noteq> [] \<Longrightarrow> \<not> isSpace (hd (trim s)) \<and> \<not> isSpace (last (trim s))"
proof -
  assume ne: "trim s \<noteq> []"
  obtain ys where ys: "trimStart s = trim s @ ys"
    using trimEnd_prefix [of "trimStart s"] by (auto simp: trim_def)
  from ne ys have "hd (trimStart s) = hd (trim s)" by (metis hd_append2)
  moreover from ne ys have "trimStart s \<noteq> []" by auto
  ultimately have "\<not> isSpace (hd (trim s))" using trimStart_hd by metis
  moreover have "\<not> isSpace (last (trim s))"
    using ne trimEnd_last [of "trimStart s"] by (simp add: trim_def)
  ultimately show ?thesis by simp
qed

lemma trim_fix:
  assumes "s = [] \<or> (\<not> isSpace (hd s) \<and> \<not> isSpace (last s))"
  shows "trim s = s"
proof (cases "s = []")
  case True then show ?thesis by (simp add: trim_def trimStart_def trimEnd_def)
next
  case False
  with assms have h: "\<not> isSpace (hd s)" and l: "\<not> isSpace (last s)" by auto
  have 1: "trimStart s = s" unfolding trimStart_def using h by (simp add: dropWhile_fix)
  have "hd (rev s) = last s" using False by (simp add: hd_rev)
  then have "dropWhile isSpace (rev s) = rev s" using l by (simp add: dropWhile_fix)
  then have 2: "trimEnd s = s" by (simp add: trimEnd_def)
  show ?thesis by (simp add: trim_def 1 2)
qed

lemma trim_idem: "trim (trim s) = trim s"
  using trim_ends [of s] by (intro trim_fix) auto

lemma ws_run_nil: "matchRe ic (OneOrMore WhiteSpace) (prev, []) = []"
  by simp

lemma ws_run_other: "\<not> isSpace c \<Longrightarrow> matchRe ic (OneOrMore WhiteSpace) (prev, c # cs) = []"
  by simp

lemma ws_run_space:
  "isSpace c \<Longrightarrow> \<exists>p tl. matchRe ic (OneOrMore WhiteSpace) (prev, c # cs) = (p, dropWhile isSpace cs) # tl"
proof (induction cs arbitrary: prev c)
  case Nil
  then show ?case by simp
next
  case (Cons d ds)
  have step: "matchRe ic (OneOrMore WhiteSpace) (prev, c # d # ds)
      = matchRe ic (OneOrMore WhiteSpace) (Some c, d # ds) @ [(Some c, d # ds)]"
    using Cons.prems by simp
  show ?case
  proof (cases "isSpace d")
    case True
    from Cons.IH [OF True, of "Some c"] obtain p tl where
      "matchRe ic (OneOrMore WhiteSpace) (Some c, d # ds) = (p, dropWhile isSpace ds) # tl" by blast
    with step True show ?thesis by (simp del: matchRe.simps)
  next
    case False
    with step show ?thesis by (simp add: ws_run_other del: matchRe.simps)
  qed
qed

lemma collapseRuns_True: "collapseRuns True cs = collapseRuns False (dropWhile isSpace cs)"
  by (induction cs) auto

lemma replace_ws_collapse:
  "replaceFrom ic (OneOrMore WhiteSpace) [0x20] prev rest = collapseRuns False rest"
proof (induction rest arbitrary: prev rule: length_induct)
  case (1 rest)
  show ?case
  proof (cases rest)
    case Nil
    then show ?thesis by (subst replaceFrom.simps) simp
  next
    case (Cons c cs)
    show ?thesis
    proof (cases "isSpace c")
      case False
      have "replaceFrom ic (OneOrMore WhiteSpace) [0x20] (Some c) cs = collapseRuns False cs"
        using 1 Cons by simp
      then show ?thesis using False Cons
        by (subst replaceFrom.simps) (simp add: ws_run_other del: matchRe.simps)
    next
      case True
      from ws_run_space [OF True, of ic prev cs] obtain p tl where
        m: "matchRe ic (OneOrMore WhiteSpace) (prev, c # cs) = (p, dropWhile isSpace cs) # tl" by blast
      have len: "length (dropWhile isSpace cs) < length rest"
        using Cons length_dropWhile_le [of isSpace cs] by simp
      then have "replaceFrom ic (OneOrMore WhiteSpace) [0x20] p (dropWhile isSpace cs)
          = collapseRuns False (dropWhile isSpace cs)"
        using 1 by blast
      then show ?thesis using True Cons m len
        by (subst replaceFrom.simps) (simp add: collapseRuns_True del: matchRe.simps)
    qed
  qed
qed

lemma sanitize_collapse: "sanitize s = collapseRuns False (trim s)"
  by (simp add: sanitize_def replaceAll_def whitespaceRunRe_def str_def replace_ws_collapse)

lemma collapseRuns_idem: "collapseRuns b (collapseRuns b t) = collapseRuns b t"
  by (induction t arbitrary: b) (auto simp: isSpace_def)

lemma collapseRuns_Nil: "collapseRuns False t = [] \<longleftrightarrow> t = []"
  by (cases t) auto

lemma collapseRuns_hd: "t \<noteq> [] \<Longrightarrow> \<not> isSpace (hd t) \<Longrightarrow> hd (collapseRuns b t) = hd t"
  by (cases t) auto

lemma collapseRuns_last:
  "t \<noteq> [] \<Longrightarrow> \<not> isSpace (last t) \<Longrightarrow> collapseRuns b t \<noteq> [] \<and> last (collapseRuns b t) = last t"
  by (induction t arbitrary: b) (auto split: if_splits)

lemma sanitize_idem: "sanitize (sanitize s) = sanitize s"
proof (cases "trim s = []")
  case True
  then have "sanitize s = []" by (simp add: sanitize_collapse)
  moreover have "sanitize [] = []"
    by (simp add: sanitize_collapse trim_def trimStart_def trimEnd_def)
  ultimately show ?thesis by simp
next
  case False
  let ?u = "collapseRuns False (trim s)"
  from trim_ends [OF False] have h: "\<not> isSpace (hd (trim s))" and l: "\<not> isSpace (last (trim s))"
    by auto
  have "?u \<noteq> []" using False by (simp add: collapseRuns_Nil)
  moreover have "hd ?u = hd (trim s)" using False h by (rule collapseRuns_hd)
  moreover have "last ?u = last (trim s)" using collapseRuns_last [OF False l] by simp
  ultimately have "trim ?u = ?u" using h l by (intro trim_fix) simp
  then show ?thesis by (simp add: sanitize_collapse collapseRuns_idem)
qed

lemma replace_no_match:
  "\<not> matchesFrom ic r prev rest \<Longrightarrow> replaceFrom ic r rep prev rest = rest"
  by (induction rest arbitrary: prev) (subst replaceFrom.simps, simp)+

subsection \<open>Histories of typed messages\<close>

lemma getProp_role [simp]: "getProp (ofMessage m) (str ''role'') = Inr (JStr (roleName (role m)))"
  by (simp add: getProp_def ofMessage_def)

lemma getProp_content [simp]: "getProp (ofMessage m) (str ''content'') = Inr (JStr (content m))"
  by (simp add: getProp_def ofMessage_def str_def)

lemma roleName_inj [simp]: "roleName a = roleName b \<longleftrightarrow> a = b"
  by (cases a; cases b) (simp_all add: roleName_def str_def)

lemma filterRole_typed:
  "filterRole (roleName r) (map ofMessage h) = Inr (map ofMessage (filter (\<lambda>m. role m = r) h))"
  by (induction h) simp_all

lemma findRole_typed:
  "findRole (roleName r) (map ofMessage h) =
     Inr (case filter (\<lambda>m. role m = r) h of [] \<Rightarrow> JUndefined | m # _ \<Rightarrow> ofMessage m)"
  by (induction h) simp_all

lemma numberEntries_typed:
  "numberEntries i (map ofMessage ms) =
     Inr (map (\<lambda>j. toStringNat (i + j + 1) @ str ''. '' @ sanitize (content (ms ! j))) [0..<length ms])"
proof (induction ms arbitrary: i)
  case Nil
  then show ?case by simp
next
  case (Cons m ms)
  show ?case
    by (simp add: Cons.IH sanitizeValue_def map_upt_Suc del: upt_Suc)
qed

lemma slice_last3: "sliceFrom (- 3) xs = drop (length xs - 3) xs"
proof -
  have "nat (max (int (length xs) + - 3) 0) = length xs - 3" by simp
  then show ?thesis by (simp add: sliceFrom_def Let_def)
qed

lemma summarize_typed:
  fixes h :: "ChatMessage list"
  defines "users \<equiv> filter (\<lambda>m. role m = User) h"
  defines "k \<equiv> min 3 (length users)"
  shows "summarizeConversation (map ofMessage h) =
     Inr (if users = [] then exploringReply
          else trackingPre @
               join [0x0A] (map (\<lambda>i. toStringNat (i + 1) @ str ''. '' @
                                  sanitize (content (users ! (length users - k + i)))) [0..<k]) @
               trackingPost)"
proof -
  have u: "filterRole (str ''user'') (map ofMessage h) = Inr (map ofMessage users)"
    using filterRole_typed [of User h] by (simp add: roleName_def users_def)
  have len: "length (drop (length users - 3) users) = k" by (simp add: k_def min_def)
  have idx: "length users - 3 = length users - k" by (simp add: k_def min_def)
  have "numberEntries 0 (sliceFrom (- 3) (map ofMessage users)) =
      numberEntries 0 (map ofMessage (drop (length users - 3) users))"
    by (simp add: slice_last3 drop_map)
  also have "\<dots> = Inr (map (\<lambda>j. toStringNat (0 + j + 1) @ str ''. '' @
                     sanitize (content (drop (length users - 3) users ! j))) [0..<k])"
    by (simp only: numberEntries_typed len)
  also have "\<dots> = Inr (map (\<lambda>i. toStringNat (i + 1) @ str ''. '' @
                     sanitize (content (users ! (length users - k + i)))) [0..<k])"
    by (simp add: idx k_def)
  finally have n: "numberEntries 0 (sliceFrom (- 3) (map ofMessage users)) =
      Inr (map (\<lambda>i. toStringNat (i + 1) @ str ''. '' @
                     sanitize (content (users ! (length users - k + i)))) [0..<k])" .
  have e: "k = 0 \<longleftrightarrow> users = []" by (cases users) (simp_all add: k_def min_def)
  show ?thesis
    using e by (simp add: summarizeConversation_def u n)
qed

lemma findLast_typed:
  "findRole (roleName r) (rev (map ofMessage h)) =
     Inr (if filter (\<lambda>m. role m = r) h = [] then JUndefined
          else ofMessage (last (filter (\<lambda>m. role m = r) h)))"
proof -
  have "findRole (roleName r) (rev (map ofMessage h)) = findRole (roleName r) (map ofMessage (rev h))"
    by (simp add: rev_map)
  also have "\<dots> = Inr (case rev (filter (\<lambda>m. role m = r) h) of [] \<Rightarrow> JUndefined | m # _ \<Rightarrow> ofMessage m)"
    by (simp only: findRole_typed rev_filter)
  also have "\<dots> = Inr (if filter (\<lambda>m. role m = r) h = [] then JUndefined
          else ofMessage (last (filter (\<lambda>m. role m = r) h)))"
    by (cases "filter (\<lambda>m. role m = r) h" rule: rev_cases) simp_all
  finally show ?thesis .
qed

lemma truthy_ofMessage [simp]: "truthy (ofMessage m)"
  by (simp add: truthy_def ofMessage_def)

lemma truthy_undefined [simp]: "\<not> truthy JUndefined"
  by (simp add: truthy_def)

lemma filter_role_Nil: "filter (\<lambda>m. role m = r) h = [] \<longleftrightarrow> (\<forall>m\<in>set h. role m \<noteq> r)"
  by (simp add: filter_empty_conv)

lemma findAssistant_typed:
  "findRole (str ''assistant'') (rev (map ofMessage h)) =
     Inr (if \<forall>m\<in>set h. role m \<noteq> Assistant then JUndefined
          else ofMessage (last (filter (\<lambda>m. role m = Assistant) h)))"
  using findLast_typed [of Assistant h] by (simp add: roleName_def filter_role_Nil)

lemma findUser_typed:
  "findRole (str ''user'') (rev (map ofMessage h)) =
     Inr (if \<forall>m\<in>set h. role m \<noteq> User then JUndefined
          else ofMessage (last (filter (\<lambda>m. role m = User) h)))"
  using findLast_typed [of User h] by (simp add: roleName_def filter_role_Nil)

lemma unmatched_response:
  assumes "\<not> matchesDispatch rt p"
  shows "buildResponse rt (JStr p) (map ofMessage h) =
     Inr (if (\<exists>m\<in>set h. role m = Assistant) \<and> stringIncludes (toLowerCase rt p) (str ''expand'')
          then \<lparr>reply = expandReply, suggestions = expandSuggestions\<rparr>
          else \<lparr>reply = echoPre @ sanitize p @ echoPost, suggestions = fallbackSuggestions\<rparr>)"
  using assms
  by (auto simp add: matchesDispatch_def buildResponse_def Let_def findAssistant_typed)

lemma buildResponse_total: "\<exists>r. buildResponse rt (JStr p) (map ofMessage h) = Inr r"
  by (simp add: buildResponse_def Let_def findAssistant_typed summarize_typed)

lemma suggestions_distinct:
  "expandSuggestions \<noteq> greetingSuggestions" "expandSuggestions \<noteq> thanksSuggestions"
  "expandSuggestions \<noteq> farewellSuggestions" "expandSuggestions \<noteq> identitySuggestions"
  "expandSuggestions \<noteq> planSuggestions" "expandSuggestions \<noteq> ideasSuggestions"
  "expandSuggestions \<noteq> jokeSuggestions" "expandSuggestions \<noteq> weatherSuggestions"
  "expandSuggestions \<noteq> timeSuggestions" "expandSuggestions \<noteq> explainSuggestions"
  "expandSuggestions \<noteq> summarySuggestions" "expandSuggestions \<noteq> fallbackSuggestions"
  by (simp_all add: expandSuggestions_def greetingSuggestions_def thanksSuggestions_def
      farewellSuggestions_def identitySuggestions_def planSuggestions_def ideasSuggestions_def
      jokeSuggestions_def weatherSuggestions_def timeSuggestions_def explainSuggestions_def
      summarySuggestions_def fallbackSuggestions_def str_def)

lemma matched_not_expand:
  assumes "matchesDispatch rt p"
  shows "buildResponse rt (JStr p) (map ofMessage h) \<noteq>
     Inr \<lparr>reply = expandReply, suggestions = expandSuggestions\<rparr>"
  using assms
  by (auto simp add: matchesDispatch_def buildResponse_def Let_def summarize_typed
      suggestions_distinct [symmetric])

subsection \<open>Texts of white space\<close>

lemma space_not_word: "isSpace c \<Longrightarrow> \<not> isWordChar c"
  unfolding isSpace_def isWordChar_def by (auto simp: word_le_nat_alt)

lemma blank_boundary: "blankState st \<Longrightarrow> matchRe ic WordBoundary st = []"
  by (cases st; cases "fst st"; cases "snd st")
     (auto simp: blankState_def isWordBoundary_def space_not_word)

lemma blank_bounded: "blankState st \<Longrightarrow> matchRe ic (Cat WordBoundary r) st = []"
  by (simp add: blank_boundary del: matchRe.simps(3))

lemma blank_chars:
  "blankState st \<Longrightarrow> w \<noteq> [] \<and> \<not> isSpace (hd w) \<Longrightarrow> matchRe False (Chars w) st = []"
  by (cases st; cases w; cases "snd st") (auto simp: blankState_def canonicalize_def)

lemma blank_lit:
  "blankState st \<Longrightarrow> str s \<noteq> [] \<and> \<not> isSpace (hd (str s)) \<Longrightarrow> matchRe False (lit s) st = []"
  unfolding lit_def by (rule blank_chars)

lemma blank_lit_then:
  "blankState st \<Longrightarrow> str s \<noteq> [] \<and> \<not> isSpace (hd (str s)) \<Longrightarrow>
     matchRe False (Cat (lit s) r) st = []"
  using blank_lit [of st s] by simp

lemma blank_no_match:
  assumes "\<And>st. blankState st \<Longrightarrow> matchRe False r st = []"
  shows "blankState (prev, s) \<Longrightarrow> \<not> matchesFrom False r prev s"
proof (induction s arbitrary: prev)
  case Nil
  then show ?case using assms by simp
next
  case (Cons c cs)
  from Cons.prems have "blankState (Some c, cs)" by (simp add: blankState_def)
  with Cons.IH have "\<not> matchesFrom False r (Some c) cs" by blast
  with Cons.prems assms show ?case by simp
qed

lemma letters_not_space:
  "str ''idea'' \<noteq> [] \<and> \<not> isSpace (hd (str ''idea''))"
  "str ''ideas'' \<noteq> [] \<and> \<not> isSpace (hd (str ''ideas''))"
  "str ''brainstorm'' \<noteq> [] \<and> \<not> isSpace (hd (str ''brainstorm''))"
  "str ''concept'' \<noteq> [] \<and> \<not> isSpace (hd (str ''concept''))"
  "str ''summary'' \<noteq> [] \<and> \<not> isSpace (hd (str ''summary''))"
  "str ''summarize'' \<noteq> [] \<and> \<not> isSpace (hd (str ''summarize''))"
  "str ''recap'' \<noteq> [] \<and> \<not> isSpace (hd (str ''recap''))"
  by (simp_all add: str_def isSpace_def)

lemma blank_dispatch:
  assumes "blankState st"
  shows "matchRe False greetingRe st = []" "matchRe False thanksRe st = []"
    "matchRe False thanksShortRe st = []" "matchRe False farewellRe st = []"
    "matchRe False identityRe st = []" "matchRe False planRe st = []"
    "matchRe False ideaRe st = []" "matchRe False jokeRe st = []"
    "matchRe False weatherRe st = []" "matchRe False timeRe st = []"
    "matchRe False explainRe st = []" "matchRe False summaryRe st = []"
  unfolding greetingRe_def thanksRe_def thanksShortRe_def farewellRe_def identityRe_def planRe_def
    jokeRe_def weatherRe_def timeRe_def explainRe_def
  using assms
  by (simp_all only: blank_bounded)
     (simp_all add: ideaRe_def summaryRe_def blank_bounded blank_lit blank_lit_then
        letters_not_space del: matchRe.simps(1,3,4))

lemma blank_lower:
  assumes "list_all (\<lambda>c. isSpace c \<and> c < 0x80) p"
  shows "toLowerCase rt p = p"
proof -
  have a: "list_all (\<lambda>c. c < 0x80) p" using assms by (simp add: list_all_iff)
  have "\<And>c. isSpace c \<Longrightarrow> asciiLower c = c"
    using space_not_word by (auto simp: asciiLower_def isWordChar_def)
  then have "map asciiLower p = p" using assms by (induction p) auto
  with a show ?thesis by (simp add: toLowerCase_def)
qed

lemma blank_includes: "list_all isSpace s \<Longrightarrow> \<not> stringIncludes s (str ''expand'')"
  by (induction s) (auto simp: startsWith_def str_def isSpace_def)

lemma blank_sanitize: "list_all isSpace s \<Longrightarrow> sanitize s = []"
proof -
  assume "list_all isSpace s"
  then have d: "dropWhile isSpace s = []" by (induction s) auto
  have "trim s = []" unfolding trim_def trimStart_def trimEnd_def d by simp
  then show ?thesis by (simp add: sanitize_collapse)
qed

lemma blank_unmatched: "list_all isSpace (toLowerCase rt p) \<Longrightarrow> \<not> matchesDispatch rt p"
proof -
  assume "list_all isSpace (toLowerCase rt p)"
  then have b: "blankState (None, toLowerCase rt p)" by (simp add: blankState_def)
  show ?thesis
    unfolding matchesDispatch_def Let_def test_def
    using b by (simp add: blank_no_match blank_dispatch)
qed

lemma blank_response:
  assumes "list_all isSpace p" and "toLowerCase rt p = p"
  shows "buildResponse rt (JStr p) (map ofMessage h) =
       Inr \<lparr>reply = echoPre @ echoPost, suggestions = fallbackSuggestions\<rparr>"
proof -
  have u: "\<not> matchesDispatch rt p" using assms by (intro blank_unmatched) simp
  from unmatched_response [OF u, of h] blank_includes [OF assms(1)] blank_sanitize [OF assms(1)] assms(2)
  show ?thesis by simp
qed

subsection \<open>Deleting keywords\<close>

lemma matchChars_folded:
  "startsWithFolded rest w \<Longrightarrow> \<exists>q. matchChars True w (prev, rest) = [(q, drop (length w) rest)]"
  "\<not> startsWithFolded rest w \<Longrightarrow> matchChars True w (prev, rest) = []"
  by (induction rest w arbitrary: prev rule: startsWithFolded.induct) auto

lemma matchRe_alts:
  "matchRe ic (alts (Chars k) (map Chars ks)) st = concat (map (\<lambda>w. matchChars ic w st) (k # ks))"
  by (induction ks arbitrary: k) simp_all

lemma first_keyword:
  assumes "\<forall>k\<in>set ks. k \<noteq> []"
  shows "case find (\<lambda>k. k \<noteq> [] \<and> startsWithFolded rest k) ks of
       None \<Rightarrow> concat (map (\<lambda>w. matchChars True w (prev, rest)) ks) = []
     | Some k \<Rightarrow> \<exists>q tl. concat (map (\<lambda>w. matchChars True w (prev, rest)) ks) =
                   (q, drop (length k) rest) # tl"
  using assms
proof (induction ks)
  case Nil
  then show ?case by simp
next
  case (Cons k ks)
  show ?case
  proof (cases "startsWithFolded rest k")
    case True
    from matchChars_folded(1) [OF True, where prev = prev] obtain q where
      "matchChars True k (prev, rest) = [(q, drop (length k) rest)]" by blast
    with True Cons.prems show ?thesis by simp
  next
    case False
    from Cons.IH Cons.prems have
      "case find (\<lambda>k. k \<noteq> [] \<and> startsWithFolded rest k) ks of
         None \<Rightarrow> concat (map (\<lambda>w. matchChars True w (prev, rest)) ks) = []
       | Some k \<Rightarrow> \<exists>q tl. concat (map (\<lambda>w. matchChars True w (prev, rest)) ks) =
                   (q, drop (length k) rest) # tl"
      by simp
    with False matchChars_folded(2) [OF False, where prev = prev] show ?thesis
      by (simp split: option.splits)
  qed
qed

lemma replace_keywords:
  assumes "\<forall>k\<in>set (k0 # ks). k \<noteq> []"
  shows "replaceFrom True (alts (Chars k0) (map Chars ks)) [] prev rest = deleteKeywords (k0 # ks) rest"
proof (induction rest arbitrary: prev rule: length_induct)
  case (1 rest)
  show ?case
  proof (cases rest)
    case Nil
    have "\<forall>w\<in>set (k0 # ks). matchChars True w (prev, []) = []"
      using assms by (auto simp: neq_Nil_conv)
    then have "matchRe True (alts (Chars k0) (map Chars ks)) (prev, []) = []"
      unfolding matchRe_alts by simp
    with Nil show ?thesis
      by (subst replaceFrom.simps) (simp add: deleteKeywords.simps)
  next
    case (Cons c cs)
    show ?thesis
    proof (cases "find (\<lambda>k. k \<noteq> [] \<and> startsWithFolded rest k) (k0 # ks)")
      case None
      with first_keyword [OF assms, where rest = rest and prev = prev]
      have m: "matchRe True (alts (Chars k0) (map Chars ks)) (prev, rest) = []"
        unfolding matchRe_alts by simp
      have "replaceFrom True (alts (Chars k0) (map Chars ks)) [] (Some c) cs = deleteKeywords (k0 # ks) cs"
        using 1 Cons by simp
      with m None Cons show ?thesis
        by (subst replaceFrom.simps) (simp add: deleteKeywords.simps)
    next
      case (Some k)
      with first_keyword [OF assms, where rest = rest and prev = prev] obtain q tl where
        m: "matchRe True (alts (Chars k0) (map Chars ks)) (prev, rest) = (q, drop (length k) rest) # tl"
        unfolding matchRe_alts by auto
      from Some have "k \<noteq> []" by (auto simp only: find_Some_iff)
      with Cons have len: "length (drop (length k) rest) < length rest" by (cases k) auto
      then have "replaceFrom True (alts (Chars k0) (map Chars ks)) [] q (drop (length k) rest)
          = deleteKeywords (k0 # ks) (drop (length k) rest)"
        using 1 by blast
      with m len Some Cons show ?thesis
        by (subst replaceFrom.simps) (simp add: deleteKeywords.simps)
    qed
  qed
qed

lemma plan_keywords_deleted:
  "replaceAll True planKeywordRe [] p =
     deleteKeywords [str ''plan'', str ''schedule'', str ''timeline'', str ''roadmap''] p"
proof -
  have "planKeywordRe = alts (Chars (str ''plan''))
      (map Chars [str ''schedule'', str ''timeline'', str ''roadmap''])"
    by (simp add: planKeywordRe_def lit_def)
  moreover have "\<forall>k\<in>set [str ''plan'', str ''schedule'', str ''timeline'', str ''roadmap'']. k \<noteq> []"
    by (simp add: str_def)
  ultimately show ?thesis
    unfolding replaceAll_def
    using replace_keywords
      [of "str ''plan''" "[str ''schedule'', str ''timeline'', str ''roadmap'']" None p]
    by simp
qed

subsection \<open>Searching an array of arbitrary values\<close>










section \<open>The claims\<close>

subsection \<open>Dispatch order\<close>

text \<open>
  C1, amended. The dispatch is ordered and the first match wins: for every input that
  satisfies the thanks predicate (either of its two patterns) and the plan predicate, and
  that does not satisfy the greeting predicate, which is tested before both, the responder
  returns the reply and the suggestions of the thanks branch and not those of the plan
  branch, whatever the history. The input \<open>thanks for the plan\<close> is one such input.
\<close>

theorem thanks_wins_over_plan:
  assumes "test thanksRe (toLowerCase rt p) \<or> test thanksShortRe (toLowerCase rt p)"
    and "test planRe (toLowerCase rt p)"
    and "\<not> test greetingRe (toLowerCase rt p)"
  shows "buildResponse rt (JStr p) h = Inr \<lparr>reply = thanksReply, suggestions = thanksSuggestions\<rparr>
    \<and> buildResponse rt (JStr p) h \<noteq> Inr \<lparr>reply = buildPlanResponse p, suggestions = planSuggestions\<rparr>"
proof -
  have "thanksSuggestions \<noteq> planSuggestions"
    by (simp add: thanksSuggestions_def planSuggestions_def str_def)
  then show ?thesis using assms by (auto simp add: buildResponse_def Let_def)
qed

text \<open>The input \<open>thanks for the plan\<close> meets the three conditions and gets the thanks reply.\<close>

theorem thanks_wins_over_plan_witness:
  "(test thanksRe (toLowerCase sampleRuntime (str ''thanks for the plan'')) \<or>
    test thanksShortRe (toLowerCase sampleRuntime (str ''thanks for the plan'')))
   \<and> test planRe (toLowerCase sampleRuntime (str ''thanks for the plan''))
   \<and> \<not> test greetingRe (toLowerCase sampleRuntime (str ''thanks for the plan''))
   \<and> buildResponse sampleRuntime (JStr (str ''thanks for the plan'')) [] =
       Inr \<lparr>reply = thanksReply, suggestions = thanksSuggestions\<rparr>"
proof -
  have a: "test thanksRe (toLowerCase sampleRuntime (str ''thanks for the plan'')) \<or>
      test thanksShortRe (toLowerCase sampleRuntime (str ''thanks for the plan''))"
    by code_simp
  have b: "test planRe (toLowerCase sampleRuntime (str ''thanks for the plan''))"
    by code_simp
  have c: "\<not> test greetingRe (toLowerCase sampleRuntime (str ''thanks for the plan''))"
    by code_simp
  from thanks_wins_over_plan [OF a b c, of "[]"] a b c show ?thesis by blast
qed

text \<open>
  Without the condition on the greeting predicate the statement fails: the input
  \<open>hello, thanks for the plan\<close> satisfies the thanks and the plan predicate and is answered
  by the greeting branch.
\<close>

theorem thanks_wins_over_plan_counterexample:
  "(test thanksRe (toLowerCase sampleRuntime (str ''hello, thanks for the plan'')) \<or>
    test thanksShortRe (toLowerCase sampleRuntime (str ''hello, thanks for the plan'')))
   \<and> test planRe (toLowerCase sampleRuntime (str ''hello, thanks for the plan''))
   \<and> buildResponse sampleRuntime (JStr (str ''hello, thanks for the plan'')) [] =
       Inr \<lparr>reply = greetingReply, suggestions = greetingSuggestions\<rparr>
   \<and> buildResponse sampleRuntime (JStr (str ''hello, thanks for the plan'')) [] \<noteq>
       Inr \<lparr>reply = thanksReply, suggestions = thanksSuggestions\<rparr>"
  by code_simp

subsection \<open>Focus extraction\<close>

text \<open>
  C2, amended. The focus of the plan branch is the raw input with the occurrences of
  \<open>plan\<close>, \<open>schedule\<close>, \<open>timeline\<close> and \<open>roadmap\<close> (in either case of their
  letters, found in one pass from the left) deleted, then trimmed, then with every run of
  white space collapsed to one space. It is normalised: sanitizing it again changes nothing.
  Extracting again changes nothing when the focus has no occurrence of a keyword left. The
  focus of \<open>"  plan   my    trip "\<close> is \<open>"my trip"\<close>. The focus of the idea branch is
  trimmed at both ends.
\<close>

theorem plan_focus_normalised:
  "planFocus p =
     collapseRuns False
       (trim (deleteKeywords [str ''plan'', str ''schedule'', str ''timeline'', str ''roadmap''] p))
   \<and> sanitize (planFocus p) = planFocus p
   \<and> (\<not> matchesFrom True planKeywordRe None (planFocus p) \<longrightarrow> planFocus (planFocus p) = planFocus p)
   \<and> planFocus (str ''  plan   my    trip '') = str ''my trip''
   \<and> trim (ideasFocus p) = ideasFocus p"
proof (intro conjI)
  show "planFocus p =
     collapseRuns False
       (trim (deleteKeywords [str ''plan'', str ''schedule'', str ''timeline'', str ''roadmap''] p))"
    by (simp only: planFocus_def sanitize_collapse plan_keywords_deleted)
  show n: "sanitize (planFocus p) = planFocus p"
    by (simp add: planFocus_def sanitize_idem)
  show "\<not> matchesFrom True planKeywordRe None (planFocus p) \<longrightarrow> planFocus (planFocus p) = planFocus p"
  proof
    assume "\<not> matchesFrom True planKeywordRe None (planFocus p)"
    then have "replaceAll True planKeywordRe [] (planFocus p) = planFocus p"
      by (simp add: replaceAll_def replace_no_match)
    then have "planFocus (planFocus p) = sanitize (planFocus p)"
      by (simp add: planFocus_def)
    with n show "planFocus (planFocus p) = planFocus p" by simp
  qed
  show "planFocus (str ''  plan   my    trip '') = str ''my trip''"
    by code_simp
  show "trim (ideasFocus p) = ideasFocus p"
    by (simp add: ideasFocus_def trim_idem)
qed

text \<open>The focus \<open>"my trip"\<close> has no keyword left, and extracting again returns it.\<close>

theorem plan_focus_normalised_witness:
  "\<not> matchesFrom True planKeywordRe None (planFocus (str ''  plan   my    trip ''))
   \<and> planFocus (planFocus (str ''  plan   my    trip '')) = planFocus (str ''  plan   my    trip '')"
proof -
  have a: "\<not> matchesFrom True planKeywordRe None (planFocus (str ''  plan   my    trip ''))"
    by code_simp
  from plan_focus_normalised [of "str ''  plan   my    trip ''"] a show ?thesis by blast
qed

text \<open>
  The focus of the idea branch keeps the runs of white space inside the text, and focus
  extraction is not idempotent: deleting the keyword of \<open>plplanan\<close> leaves \<open>plan\<close>, and
  deleting again leaves nothing.
\<close>

theorem plan_focus_normalised_counterexample:
  "ideasFocus (str ''  idea   my    trip '') = str ''my    trip''
   \<and> planFocus (str ''plplanan'') = str ''plan''
   \<and> planFocus (planFocus (str ''plplanan'')) = []"
  by code_simp

subsection \<open>The summarizer\<close>

text \<open>
  C3. For every history of typed messages, \<open>summarizeConversation\<close> keeps the entries of role
  \<open>user\<close>, takes the last three of them (all of them when there are fewer) in their order,
  and numbers them from 1: line \<open>i\<close> is the number \<open>i + 1\<close>, a full stop, a space and the
  sanitized content of the entry at position \<open>n - k + i\<close> of the \<open>n\<close> user entries, where
  \<open>k = min 3 n\<close>. With no user entry the result is the fixed exploring message. For the
  history user a, assistant x, user b, user c, user d the lines are \<open>1. b\<close>, \<open>2. c\<close>,
  \<open>3. d\<close>.
\<close>

theorem summarize_last_three_users:
  "summarizeConversation (map ofMessage h) =
     Inr (if userEntries h = [] then exploringReply
          else trackingPre @
               join [0x0A]
                 (map (\<lambda>i. toStringNat (i + 1) @ str ''. '' @
                        sanitize (content (userEntries h !
                          (length (userEntries h) - min 3 (length (userEntries h)) + i))))
                      [0..<min 3 (length (userEntries h))]) @
               trackingPost)
   \<and> summarizeConversation [] = Inr exploringReply
   \<and> summarizeConversation
        (map ofMessage
          [\<lparr>role = User, content = str ''a''\<rparr>, \<lparr>role = Assistant, content = str ''x''\<rparr>,
           \<lparr>role = User, content = str ''b''\<rparr>, \<lparr>role = User, content = str ''c''\<rparr>,
           \<lparr>role = User, content = str ''d''\<rparr>]) =
       Inr (trackingPre @ str ''1. b'' @ [0x0A] @ str ''2. c'' @ [0x0A] @ str ''3. d'' @
            trackingPost)"
proof (intro conjI)
  show "summarizeConversation (map ofMessage h) =
     Inr (if userEntries h = [] then exploringReply
          else trackingPre @
               join [0x0A]
                 (map (\<lambda>i. toStringNat (i + 1) @ str ''. '' @
                        sanitize (content (userEntries h !
                          (length (userEntries h) - min 3 (length (userEntries h)) + i))))
                      [0..<min 3 (length (userEntries h))]) @
               trackingPost)"
    unfolding userEntries_def by (rule summarize_typed)
  show "summarizeConversation [] = Inr exploringReply"
    by code_simp
  show "summarizeConversation
        (map ofMessage
          [\<lparr>role = User, content = str ''a''\<rparr>, \<lparr>role = Assistant, content = str ''x''\<rparr>,
           \<lparr>role = User, content = str ''b''\<rparr>, \<lparr>role = User, content = str ''c''\<rparr>,
           \<lparr>role = User, content = str ''d''\<rparr>]) =
       Inr (trackingPre @ str ''1. b'' @ [0x0A] @ str ''2. c'' @ [0x0A] @ str ''3. d'' @
            trackingPost)"
    by code_simp
qed

text \<open>The general statement at a history with one user entry.\<close>

theorem summarize_last_three_users_witness:
  "summarizeConversation
     (map ofMessage
       [\<lparr>role = User, content = str ''  first   request ''\<rparr>,
        \<lparr>role = Assistant, content = str ''noted''\<rparr>]) =
     Inr (trackingPre @ str ''1. first request'' @ trackingPost)"
proof -
  have a: "userEntries
       [\<lparr>role = User, content = str ''  first   request ''\<rparr>,
        \<lparr>role = Assistant, content = str ''noted''\<rparr>] =
      [\<lparr>role = User, content = str ''  first   request ''\<rparr>]"
    by (simp add: userEntries_def)
  have b: "toStringNat (Suc 0) @ str ''. '' @ sanitize (str ''  first   request '') =
      str ''1. first request''"
    by code_simp
  from summarize_last_three_users
    [of "[\<lparr>role = User, content = str ''  first   request ''\<rparr>,
          \<lparr>role = Assistant, content = str ''noted''\<rparr>]"]
  show ?thesis by (simp add: a b)
qed

subsection \<open>Totality of the responder\<close>

text \<open>
  C4. The responder is total: for every input text and every history of typed messages
  \<open>buildResponse\<close> returns a payload and does not throw. The empty text gets the
  fallback reply; so does every text of ASCII white space, and every text of white space
  that lower-casing leaves as it is; so does every text that none of the patterns matches
  and that is not an expand follow-up.
\<close>

theorem responder_total:
  "(\<exists>r. buildResponse rt (JStr p) (map ofMessage h) = Inr r)
   \<and> buildResponse rt (JStr []) (map ofMessage h) =
       Inr \<lparr>reply = echoPre @ echoPost, suggestions = fallbackSuggestions\<rparr>
   \<and> (list_all (\<lambda>c. isSpace c \<and> c < 0x80) p
      \<longrightarrow> buildResponse rt (JStr p) (map ofMessage h) =
            Inr \<lparr>reply = echoPre @ echoPost, suggestions = fallbackSuggestions\<rparr>)
   \<and> (list_all isSpace p \<and> toLowerCase rt p = p
      \<longrightarrow> buildResponse rt (JStr p) (map ofMessage h) =
            Inr \<lparr>reply = echoPre @ echoPost, suggestions = fallbackSuggestions\<rparr>)
   \<and> (\<not> matchesDispatch rt p \<and>
       \<not> ((\<exists>m\<in>set h. role m = Assistant) \<and> stringIncludes (toLowerCase rt p) (str ''expand''))
      \<longrightarrow> buildResponse rt (JStr p) (map ofMessage h) =
            Inr \<lparr>reply = echoPre @ sanitize p @ echoPost, suggestions = fallbackSuggestions\<rparr>)"
proof (intro conjI)
  show "\<exists>r. buildResponse rt (JStr p) (map ofMessage h) = Inr r"
    by (rule buildResponse_total)
  have "toLowerCase rt [] = []" by (simp add: toLowerCase_def)
  then show "buildResponse rt (JStr []) (map ofMessage h) =
       Inr \<lparr>reply = echoPre @ echoPost, suggestions = fallbackSuggestions\<rparr>"
    by (intro blank_response) simp_all
  show "list_all (\<lambda>c. isSpace c \<and> c < 0x80) p
      \<longrightarrow> buildResponse rt (JStr p) (map ofMessage h) =
            Inr \<lparr>reply = echoPre @ echoPost, suggestions = fallbackSuggestions\<rparr>"
  proof
    assume a: "list_all (\<lambda>c. isSpace c \<and> c < 0x80) p"
    then have "list_all isSpace p" by (simp add: list_all_iff)
    then show "buildResponse rt (JStr p) (map ofMessage h) =
            Inr \<lparr>reply = echoPre @ echoPost, suggestions = fallbackSuggestions\<rparr>"
      using blank_lower [OF a] by (intro blank_response)
  qed
  show "list_all isSpace p \<and> toLowerCase rt p = p
      \<longrightarrow> buildResponse rt (JStr p) (map ofMessage h) =
            Inr \<lparr>reply = echoPre @ echoPost, suggestions = fallbackSuggestions\<rparr>"
    using blank_response [of p rt h] by blast
  show "\<not> matchesDispatch rt p \<and>
       \<not> ((\<exists>m\<in>set h. role m = Assistant) \<and> stringIncludes (toLowerCase rt p) (str ''expand''))
      \<longrightarrow> buildResponse rt (JStr p) (map ofMessage h) =
            Inr \<lparr>reply = echoPre @ sanitize p @ echoPost, suggestions = fallbackSuggestions\<rparr>"
    using unmatched_response [of rt p h] by auto
qed

text \<open>
  A text that no pattern matches, a text of a space, a tab and a line feed, and a text of a
  no-break space and an ideographic space get the fallback reply after an assistant turn.
\<close>

theorem responder_total_witness:
  "\<not> matchesDispatch sampleRuntime (str ''so, what now?'')
   \<and> \<not> stringIncludes (toLowerCase sampleRuntime (str ''so, what now?'')) (str ''expand'')
   \<and> buildResponse sampleRuntime (JStr (str ''so, what now?''))
        (map ofMessage [\<lparr>role = Assistant, content = str ''welcome''\<rparr>]) =
       Inr \<lparr>reply = echoPre @ sanitize (str ''so, what now?'') @ echoPost,
            suggestions = fallbackSuggestions\<rparr>
   \<and> list_all (\<lambda>c. isSpace c \<and> c < 0x80) [0x20, 0x09, 0x0A]
   \<and> buildResponse sampleRuntime (JStr [0x20, 0x09, 0x0A])
        (map ofMessage [\<lparr>role = Assistant, content = str ''welcome''\<rparr>]) =
       Inr \<lparr>reply = echoPre @ echoPost, suggestions = fallbackSuggestions\<rparr>
   \<and> list_all isSpace [0xA0, 0x3000] \<and> toLowerCase sampleRuntime [0xA0, 0x3000] = [0xA0, 0x3000]
   \<and> buildResponse sampleRuntime (JStr [0xA0, 0x3000])
        (map ofMessage [\<lparr>role = Assistant, content = str ''welcome''\<rparr>]) =
       Inr \<lparr>reply = echoPre @ echoPost, suggestions = fallbackSuggestions\<rparr>"
proof -
  have a: "\<not> matchesDispatch sampleRuntime (str ''so, what now?'')" by code_simp
  have b: "\<not> stringIncludes (toLowerCase sampleRuntime (str ''so, what now?'')) (str ''expand'')"
    by code_simp
  have c: "list_all (\<lambda>c. isSpace c \<and> c < 0x80) [0x20, 0x09, 0x0A]" by code_simp
  have d: "list_all isSpace [0xA0, 0x3000]" by code_simp
  have e: "toLowerCase sampleRuntime [0xA0, 0x3000] = [0xA0, 0x3000]" by code_simp
  from responder_total
    [of sampleRuntime "str ''so, what now?''" "[\<lparr>role = Assistant, content = str ''welcome''\<rparr>]"]
    responder_total
    [of sampleRuntime "[0x20, 0x09, 0x0A]" "[\<lparr>role = Assistant, content = str ''welcome''\<rparr>]"]
    responder_total
    [of sampleRuntime "[0xA0, 0x3000]" "[\<lparr>role = Assistant, content = str ''welcome''\<rparr>]"]
    a b c d e
  show ?thesis by blast
qed

subsection \<open>Malformed requests\<close>

text \<open>
  C5. A request body that is not an object, an object without the property \<open>messages\<close>,
  and an object whose \<open>messages\<close> is not an array are all answered with status 400, the
  fixed malformed-request reply and the default suggestions; the response is the same for
  every runtime, the responder has no part in it.
\<close>

theorem malformed_request_400:
  "((\<forall>kvs. body \<noteq> JObj kvs) \<longrightarrow> POST rt (Inr body) = malformedResponse)
   \<and> (map_of kvs (str ''messages'') = None \<longrightarrow> POST rt (Inr (JObj kvs)) = malformedResponse)
   \<and> (map_of kvs (str ''messages'') = Some v \<and> \<not> isArray v
        \<longrightarrow> POST rt (Inr (JObj kvs)) = malformedResponse)
   \<and> status malformedResponse = 400
   \<and> payload malformedResponse = \<lparr>reply = malformedReply, suggestions = fallbackSuggestions\<rparr>"
proof (intro conjI)
  show "(\<forall>kvs. body \<noteq> JObj kvs) \<longrightarrow> POST rt (Inr body) = malformedResponse"
    by (cases body)
       (simp_all add: POST_def handleRequest_def truthy_def getProp_def malformedResponse_def)
  show "map_of kvs (str ''messages'') = None \<longrightarrow> POST rt (Inr (JObj kvs)) = malformedResponse"
    by (simp add: POST_def handleRequest_def truthy_def getProp_def malformedResponse_def)
  show "map_of kvs (str ''messages'') = Some v \<and> \<not> isArray v
        \<longrightarrow> POST rt (Inr (JObj kvs)) = malformedResponse"
    by (cases v)
       (simp_all add: POST_def handleRequest_def truthy_def getProp_def malformedResponse_def
         isArray_def)
  show "status malformedResponse = 400" by (simp add: malformedResponse_def)
  show "payload malformedResponse = \<lparr>reply = malformedReply, suggestions = fallbackSuggestions\<rparr>"
    by (simp add: malformedResponse_def)
qed

text \<open>
  The bodies \<open>{messages: "not-an-array"}\<close>, \<open>{history: []}\<close> and \<open>null\<close> get that
  response.
\<close>

theorem malformed_request_400_witness:
  "map_of [(str ''messages'', JStr (str ''not-an-array''))] (str ''messages'') =
      Some (JStr (str ''not-an-array''))
   \<and> \<not> isArray (JStr (str ''not-an-array''))
   \<and> POST sampleRuntime (Inr (JObj [(str ''messages'', JStr (str ''not-an-array''))])) =
       malformedResponse
   \<and> map_of [(str ''history'', JArr [])] (str ''messages'') = None
   \<and> POST sampleRuntime (Inr (JObj [(str ''history'', JArr [])])) = malformedResponse
   \<and> (\<forall>kvs. JNull \<noteq> JObj kvs)
   \<and> POST sampleRuntime (Inr JNull) = malformedResponse"
proof -
  have a: "map_of [(str ''messages'', JStr (str ''not-an-array''))] (str ''messages'') =
      Some (JStr (str ''not-an-array''))" by simp
  have b: "\<not> isArray (JStr (str ''not-an-array''))" by (simp add: isArray_def)
  have c: "map_of [(str ''history'', JArr [])] (str ''messages'') = None" by (simp add: str_def)
  have d: "\<forall>kvs. JNull \<noteq> JObj kvs" by simp
  from malformed_request_400
    [of JNull sampleRuntime "[(str ''messages'', JStr (str ''not-an-array''))]" "JStr (str ''not-an-array'')"]
    malformed_request_400 [of JNull sampleRuntime "[(str ''history'', JArr [])]" JNull]
    a b c d
  show ?thesis by blast
qed

subsection \<open>Requests without a user turn\<close>

text \<open>
  C6. For a request body whose \<open>messages\<close> is an array of typed messages: when no entry has
  role \<open>user\<close>, the endpoint answers with status 200, the fixed ready reply and the default
  suggestions; otherwise it answers with status 200 and the payload that the responder
  returns for the content of the last entry of role \<open>user\<close> and the whole array.
\<close>

theorem no_user_turn_ready:
  assumes "map_of kvs (str ''messages'') = Some (JArr (map ofMessage h))"
  shows "((\<forall>m\<in>set h. role m \<noteq> User) \<longrightarrow> POST rt (Inr (JObj kvs)) = readyResponse)
   \<and> ((\<exists>m\<in>set h. role m = User) \<longrightarrow>
        (\<exists>r. buildResponse rt (JStr (content (last (userEntries h)))) (map ofMessage h) = Inr r
           \<and> POST rt (Inr (JObj kvs)) = \<lparr>status = 200, payload = r\<rparr>))
   \<and> status readyResponse = 200
   \<and> payload readyResponse = \<lparr>reply = readyReply, suggestions = fallbackSuggestions\<rparr>"
proof (intro conjI)
  have m: "getProp (JObj kvs) (str ''messages'') = Inr (JArr (map ofMessage h))"
    using assms by (simp add: getProp_def)
  have t: "truthy (JObj kvs)" by (simp add: truthy_def)
  show "(\<forall>m\<in>set h. role m \<noteq> User) \<longrightarrow> POST rt (Inr (JObj kvs)) = readyResponse"
    by (simp add: POST_def handleRequest_def m t findUser_typed readyResponse_def)
  show "(\<exists>m\<in>set h. role m = User) \<longrightarrow>
        (\<exists>r. buildResponse rt (JStr (content (last (userEntries h)))) (map ofMessage h) = Inr r
           \<and> POST rt (Inr (JObj kvs)) = \<lparr>status = 200, payload = r\<rparr>)"
  proof
    assume u: "\<exists>m\<in>set h. role m = User"
    obtain r where r: "buildResponse rt (JStr (content (last (userEntries h)))) (map ofMessage h) = Inr r"
      using buildResponse_total by blast
    have "POST rt (Inr (JObj kvs)) = \<lparr>status = 200, payload = r\<rparr>"
      using u r by (auto simp add: POST_def handleRequest_def m t findUser_typed userEntries_def)
    with r show "\<exists>r. buildResponse rt (JStr (content (last (userEntries h)))) (map ofMessage h) = Inr r
           \<and> POST rt (Inr (JObj kvs)) = \<lparr>status = 200, payload = r\<rparr>" by blast
  qed
  show "status readyResponse = 200" by (simp add: readyResponse_def)
  show "payload readyResponse = \<lparr>reply = readyReply, suggestions = fallbackSuggestions\<rparr>"
    by (simp add: readyResponse_def)
qed

text \<open>
  An array with one assistant entry gets the ready response; an array with the user entry
  \<open>tell me a joke\<close> gets the joke.
\<close>

theorem no_user_turn_ready_witness:
  "map_of [(str ''messages'', JArr (map ofMessage [\<lparr>role = Assistant, content = str ''hi''\<rparr>]))]
      (str ''messages'') = Some (JArr (map ofMessage [\<lparr>role = Assistant, content = str ''hi''\<rparr>]))
   \<and> POST sampleRuntime
        (Inr (JObj [(str ''messages'', JArr (map ofMessage [\<lparr>role = Assistant, content = str ''hi''\<rparr>]))]))
       = readyResponse
   \<and> (\<exists>m\<in>set [\<lparr>role = User, content = str ''tell me a joke''\<rparr>]. role m = User)
   \<and> POST sampleRuntime
        (Inr (JObj [(str ''messages'',
                     JArr (map ofMessage [\<lparr>role = User, content = str ''tell me a joke''\<rparr>]))]))
       = \<lparr>status = 200, payload = \<lparr>reply = jokeReply, suggestions = jokeSuggestions\<rparr>\<rparr>"
proof -
  have a: "map_of [(str ''messages'', JArr (map ofMessage [\<lparr>role = Assistant, content = str ''hi''\<rparr>]))]
      (str ''messages'') = Some (JArr (map ofMessage [\<lparr>role = Assistant, content = str ''hi''\<rparr>]))"
    by simp
  have b: "\<forall>m\<in>set [\<lparr>role = Assistant, content = str ''hi''\<rparr>]. role m \<noteq> User" by simp
  have c: "map_of [(str ''messages'',
                     JArr (map ofMessage [\<lparr>role = User, content = str ''tell me a joke''\<rparr>]))]
      (str ''messages'') = Some (JArr (map ofMessage [\<lparr>role = User, content = str ''tell me a joke''\<rparr>]))"
    by simp
  have d: "\<exists>m\<in>set [\<lparr>role = User, content = str ''tell me a joke''\<rparr>]. role m = User" by simp
  have e: "buildResponse sampleRuntime
        (JStr (content (last (userEntries [\<lparr>role = User, content = str ''tell me a joke''\<rparr>]))))
        (map ofMessage [\<lparr>role = User, content = str ''tell me a joke''\<rparr>])
      = Inr \<lparr>reply = jokeReply, suggestions = jokeSuggestions\<rparr>"
    by code_simp
  from no_user_turn_ready [OF a, of sampleRuntime] no_user_turn_ready [OF c, of sampleRuntime] b d e
  show ?thesis by auto
qed

subsection \<open>Greetings\<close>

text \<open>
  C7. For every input whose lower-cased text matches the greeting pattern and for every
  history (of any length and of any content) the responder returns the fixed greeting reply
  and its three suggestions.
\<close>

theorem greeting_reply_fixed:
  "test greetingRe (toLowerCase rt p) \<Longrightarrow>
     buildResponse rt (JStr p) h = Inr \<lparr>reply = greetingReply, suggestions = greetingSuggestions\<rparr>
     \<and> length greetingSuggestions = 3"
  by (simp add: buildResponse_def Let_def greetingSuggestions_def)

text \<open>The inputs \<open>good morning\<close>, \<open>hi\<close> and \<open>Hello\<close> match and get the greeting.\<close>

theorem greeting_reply_fixed_witness:
  "test greetingRe (toLowerCase sampleRuntime (str ''good morning''))
   \<and> buildResponse sampleRuntime (JStr (str ''good morning''))
        [ofMessage \<lparr>role = Assistant, content = str ''welcome''\<rparr>, JNull] =
       Inr \<lparr>reply = greetingReply, suggestions = greetingSuggestions\<rparr>
   \<and> test greetingRe (toLowerCase sampleRuntime (str ''hi''))
   \<and> buildResponse sampleRuntime (JStr (str ''hi'')) [] =
       Inr \<lparr>reply = greetingReply, suggestions = greetingSuggestions\<rparr>
   \<and> test greetingRe (toLowerCase sampleRuntime (str ''Hello''))
   \<and> buildResponse sampleRuntime (JStr (str ''Hello'')) [] =
       Inr \<lparr>reply = greetingReply, suggestions = greetingSuggestions\<rparr>"
proof -
  have a: "test greetingRe (toLowerCase sampleRuntime (str ''good morning''))" by code_simp
  have b: "test greetingRe (toLowerCase sampleRuntime (str ''hi''))" by code_simp
  have c: "test greetingRe (toLowerCase sampleRuntime (str ''Hello''))" by code_simp
  from greeting_reply_fixed [OF a] greeting_reply_fixed [OF b] greeting_reply_fixed [OF c] a b c
  show ?thesis by blast
qed

subsection \<open>The fallback and sanitize\<close>

text \<open>
  C8. For every input that none of the dispatch patterns matches, with a history of typed
  messages that has no assistant entry or with no occurrence of \<open>expand\<close> in the
  lower-cased input, the reply of the responder is the generic template around the sanitized
  input, with the default suggestions. Sanitizing is trimming and then collapsing every run
  of white space to one space, and it is idempotent. For \<open>xyzzy quux\<close> the reply embeds
  \<open>xyzzy quux\<close>.
\<close>

theorem fallback_echoes_sanitized:
  "(\<not> matchesDispatch rt p \<and>
      ((\<forall>m\<in>set h. role m \<noteq> Assistant) \<or> \<not> stringIncludes (toLowerCase rt p) (str ''expand''))
     \<longrightarrow> buildResponse rt (JStr p) (map ofMessage h) =
           Inr \<lparr>reply = echoPre @ sanitize p @ echoPost, suggestions = fallbackSuggestions\<rparr>)
   \<and> sanitize p = collapseRuns False (trim p)
   \<and> sanitize (sanitize p) = sanitize p
   \<and> buildResponse rt (JStr (str ''xyzzy quux'')) [] =
       Inr \<lparr>reply = echoPre @ str ''xyzzy quux'' @ echoPost, suggestions = fallbackSuggestions\<rparr>"
proof (intro conjI)
  show "\<not> matchesDispatch rt p \<and>
      ((\<forall>m\<in>set h. role m \<noteq> Assistant) \<or> \<not> stringIncludes (toLowerCase rt p) (str ''expand''))
     \<longrightarrow> buildResponse rt (JStr p) (map ofMessage h) =
           Inr \<lparr>reply = echoPre @ sanitize p @ echoPost, suggestions = fallbackSuggestions\<rparr>"
    using unmatched_response [of rt p h] by auto
  show "sanitize p = collapseRuns False (trim p)" by (rule sanitize_collapse)
  show "sanitize (sanitize p) = sanitize p" by (rule sanitize_idem)
  show "buildResponse rt (JStr (str ''xyzzy quux'')) [] =
       Inr \<lparr>reply = echoPre @ str ''xyzzy quux'' @ echoPost, suggestions = fallbackSuggestions\<rparr>"
    by code_simp
qed

text \<open>The input \<open>" xyzzy   quux "\<close> is echoed as \<open>xyzzy quux\<close>.\<close>

theorem fallback_echoes_sanitized_witness:
  "\<not> matchesDispatch sampleRuntime (str '' xyzzy   quux '')
   \<and> buildResponse sampleRuntime (JStr (str '' xyzzy   quux ''))
        (map ofMessage [\<lparr>role = User, content = str '' xyzzy   quux ''\<rparr>]) =
       Inr \<lparr>reply = echoPre @ sanitize (str '' xyzzy   quux '') @ echoPost,
            suggestions = fallbackSuggestions\<rparr>
   \<and> sanitize (str '' xyzzy   quux '') = str ''xyzzy quux''"
proof -
  have a: "\<not> matchesDispatch sampleRuntime (str '' xyzzy   quux '')" by code_simp
  have b: "\<forall>m\<in>set [\<lparr>role = User, content = str '' xyzzy   quux ''\<rparr>]. role m \<noteq> Assistant" by simp
  have c: "sanitize (str '' xyzzy   quux '') = str ''xyzzy quux''" by code_simp
  from fallback_echoes_sanitized
    [of sampleRuntime "str '' xyzzy   quux ''" "[\<lparr>role = User, content = str '' xyzzy   quux ''\<rparr>]"]
    a b c
  show ?thesis by blast
qed

subsection \<open>The expand follow-up\<close>

text \<open>
  C9. On a history of typed messages the responder returns the expand payload (the fixed
  clarifying question and its three suggestions) exactly when none of the eleven patterns
  matches the lower-cased input, the lower-cased input contains \<open>expand\<close>, and the history
  has an entry of role \<open>assistant\<close>. When the first two hold and the history has no
  assistant entry, the responder returns the fallback reply.
\<close>

theorem expand_follow_up:
  "(buildResponse rt (JStr p) (map ofMessage h) =
       Inr \<lparr>reply = expandReply, suggestions = expandSuggestions\<rparr>
    \<longleftrightarrow> \<not> matchesDispatch rt p \<and> stringIncludes (toLowerCase rt p) (str ''expand'') \<and>
        (\<exists>m\<in>set h. role m = Assistant))
   \<and> length expandSuggestions = 3
   \<and> (\<not> matchesDispatch rt p \<and> stringIncludes (toLowerCase rt p) (str ''expand'') \<and>
        (\<forall>m\<in>set h. role m \<noteq> Assistant)
      \<longrightarrow> buildResponse rt (JStr p) (map ofMessage h) =
            Inr \<lparr>reply = echoPre @ sanitize p @ echoPost, suggestions = fallbackSuggestions\<rparr>)"
proof (intro conjI)
  show "buildResponse rt (JStr p) (map ofMessage h) =
       Inr \<lparr>reply = expandReply, suggestions = expandSuggestions\<rparr>
    \<longleftrightarrow> \<not> matchesDispatch rt p \<and> stringIncludes (toLowerCase rt p) (str ''expand'') \<and>
        (\<exists>m\<in>set h. role m = Assistant)"
  proof (cases "matchesDispatch rt p")
    case True
    then show ?thesis using matched_not_expand [OF True, of h] by simp
  next
    case False
    then show ?thesis
      using unmatched_response [OF False, of h] suggestions_distinct(12) by auto
  qed
  show "length expandSuggestions = 3" by (simp add: expandSuggestions_def)
  show "\<not> matchesDispatch rt p \<and> stringIncludes (toLowerCase rt p) (str ''expand'') \<and>
        (\<forall>m\<in>set h. role m \<noteq> Assistant)
      \<longrightarrow> buildResponse rt (JStr p) (map ofMessage h) =
            Inr \<lparr>reply = echoPre @ sanitize p @ echoPost, suggestions = fallbackSuggestions\<rparr>"
    using unmatched_response [of rt p h] by auto
qed

text \<open>
  The input \<open>Please expand on that\<close> after an assistant turn gets the clarifying question, and
  without one the fallback.
\<close>

theorem expand_follow_up_witness:
  "\<not> matchesDispatch sampleRuntime (str ''Please expand on that'')
   \<and> stringIncludes (toLowerCase sampleRuntime (str ''Please expand on that'')) (str ''expand'')
   \<and> (\<exists>m\<in>set [\<lparr>role = Assistant, content = str ''Here you go''\<rparr>]. role m = Assistant)
   \<and> buildResponse sampleRuntime (JStr (str ''Please expand on that''))
        (map ofMessage [\<lparr>role = Assistant, content = str ''Here you go''\<rparr>]) =
       Inr \<lparr>reply = expandReply, suggestions = expandSuggestions\<rparr>
   \<and> buildResponse sampleRuntime (JStr (str ''Please expand on that''))
        (map ofMessage [\<lparr>role = User, content = str ''Please expand on that''\<rparr>]) =
       Inr \<lparr>reply = echoPre @ sanitize (str ''Please expand on that'') @ echoPost,
            suggestions = fallbackSuggestions\<rparr>"
proof -
  have a: "\<not> matchesDispatch sampleRuntime (str ''Please expand on that'')" by code_simp
  have b: "stringIncludes (toLowerCase sampleRuntime (str ''Please expand on that'')) (str ''expand'')"
    by code_simp
  have c: "\<exists>m\<in>set [\<lparr>role = Assistant, content = str ''Here you go''\<rparr>]. role m = Assistant" by simp
  have d: "\<forall>m\<in>set [\<lparr>role = User, content = str ''Please expand on that''\<rparr>]. role m \<noteq> Assistant"
    by simp
  from expand_follow_up
    [of sampleRuntime "str ''Please expand on that''" "[\<lparr>role = Assistant, content = str ''Here you go''\<rparr>]"]
    expand_follow_up
    [of sampleRuntime "str ''Please expand on that''" "[\<lparr>role = User, content = str ''Please expand on that''\<rparr>]"]
    a b c d
  show ?thesis by blast
qed

subsection \<open>Arrays of arbitrary elements\<close>




end
